theory Spec2Isabelle
  imports Complex_Main
begin

section \<open>Numbers\<close>

text \<open>
  The calculator of \<^verbatim>\<open>src/utils/calculator.ts\<close> works on JavaScript numbers. They are
  modelled as exact rationals: every finite literal a survey file can spell is a rational,
  and \<^verbatim>\<open>+ - * /\<close>, comparison, \<^verbatim>\<open>Math.abs\<close> and \<^verbatim>\<open>Math.round\<close> are the exact operations.
  The not-a-number value of a failed parse is \<open>None\<close>. Binary rounding of doubles,
  infinities and literals spelled \<^verbatim>\<open>Infinity\<close> or with a radix prefix are outside the model.
  Theorems about the section geometry assume non-zero slope ratios, so that no division of
  the model is a division by zero of the code.
\<close>

type_synonym number = rat

text \<open>\<^verbatim>\<open>Math.round\<close> rounds half up, which is \<^const>\<open>round\<close>.\<close>

definition round3 :: "number \<Rightarrow> number" where
  "round3 x = of_int (round (x * 1000)) / 1000"

section \<open>Points, intersection, ground level\<close>

datatype Point = Point (px: number) (py: number)

definition getIntersection :: "Point \<Rightarrow> Point \<Rightarrow> Point \<Rightarrow> Point \<Rightarrow> Point option" where
  "getIntersection p1 p2 p3 p4 =
     (let x1 = px p1; y1 = py p1; x2 = px p2; y2 = py p2;
          x3 = px p3; y3 = py p3; x4 = px p4; y4 = py p4;
          denom = (y4 - y3) * (x2 - x1) - (x4 - x3) * (y2 - y1)
      in if denom = 0 then None
         else
           let ua = ((x4 - x3) * (y1 - y3) - (y4 - y3) * (x1 - x3)) / denom;
               ub = ((x2 - x1) * (y1 - y3) - (y2 - y1) * (x1 - x3)) / denom
           in if ua \<ge> 0 \<and> ua \<le> 1 \<and> ub \<ge> 0 \<and> ub \<le> 1
              then Some (Point (x1 + ua * (x2 - x1)) (y1 + ua * (y2 - y1)))
              else None)"

text \<open>The interpolation loop of \<^verbatim>\<open>getInterpolatedEGL\<close>: the first bracketing pair wins.\<close>

fun interpolate :: "number \<Rightarrow> Point list \<Rightarrow> number option" where
  "interpolate x (p1 # p2 # ps) =
     (if x \<ge> px p1 \<and> x \<le> px p2
      then (let t = (x - px p1) / (px p2 - px p1) in Some (py p1 + t * (py p2 - py p1)))
      else interpolate x (p2 # ps))"
| "interpolate x ps = None"

text \<open>
  The ground profile is never empty where the function is called: it is always the four
  survey points.
\<close>

definition getInterpolatedEGL :: "number \<Rightarrow> Point list \<Rightarrow> number" where
  "getInterpolatedEGL x groundProfile =
     (if x \<le> px (hd groundProfile) then py (hd groundProfile)
      else if x \<ge> px (last groundProfile) then py (last groundProfile)
      else (case interpolate x groundProfile of
              Some v \<Rightarrow> v
            | None \<Rightarrow> py (hd groundProfile)))"

section \<open>One cross-section\<close>

datatype SectionType = Cut | Fill | Mixed | Level

record EarthworkRow =
  r_chainage :: string
  r_chainage_m :: int
  r_fglC :: number
  r_egl15L :: number
  r_eglMedL :: number
  r_eglMedR :: number
  r_egl15R :: number
  r_camberDrop :: number
  r_hL :: number
  r_hR :: number
  r_type :: SectionType
  r_B :: number
  r_medianWidth :: number
  r_usedSlope :: number
  r_distL :: number
  r_distR :: number
  r_bottomWidth :: number
  r_area :: number
  r_areaCut :: number
  r_areaFill :: number
  r_spacing :: "number option"
  r_segVolume :: number

text \<open>
  The four ground points, sorted by offset. \<^verbatim>\<open>Array.prototype.sort\<close> is stable, as
  \<^const>\<open>sort_key\<close> is.
\<close>

definition groundPts :: "number \<Rightarrow> number \<Rightarrow> number \<Rightarrow> number \<Rightarrow> number \<Rightarrow> Point list" where
  "groundPts medianWidth egl15L eglMedL eglMedR egl15R =
     (let halfMed = medianWidth / 2
      in sort_key px [Point (- 15) egl15L, Point (- halfMed) eglMedL,
                      Point halfMed eglMedR, Point 15 egl15R])"

definition camberDrop :: "number \<Rightarrow> number \<Rightarrow> number" where
  "camberDrop B camber = (B / 2) * (camber / 100)"

definition fglL_edge :: "number \<Rightarrow> number \<Rightarrow> number \<Rightarrow> number" where
  "fglL_edge B camber fglC = fglC - camberDrop B camber"

definition fglR_edge :: "number \<Rightarrow> number \<Rightarrow> number \<Rightarrow> number" where
  "fglR_edge B camber fglC = fglC - camberDrop B camber"

definition gL_at_edge :: "number \<Rightarrow> Point list \<Rightarrow> number" where
  "gL_at_edge B gp = getInterpolatedEGL (- B / 2) gp"

definition gR_at_edge :: "number \<Rightarrow> Point list \<Rightarrow> number" where
  "gR_at_edge B gp = getInterpolatedEGL (B / 2) gp"

definition isCutL :: "number \<Rightarrow> number \<Rightarrow> number \<Rightarrow> Point list \<Rightarrow> bool" where
  "isCutL B camber fglC gp = (gL_at_edge B gp - fglL_edge B camber fglC > 0)"

definition isCutR :: "number \<Rightarrow> number \<Rightarrow> number \<Rightarrow> Point list \<Rightarrow> bool" where
  "isCutR B camber fglC gp = (gR_at_edge B gp - fglR_edge B camber fglC > 0)"

definition gradL :: "number \<Rightarrow> number \<Rightarrow> number \<Rightarrow> number \<Rightarrow> number \<Rightarrow> Point list \<Rightarrow> number" where
  "gradL B camber cutSlope fillSlope fglC gp =
     (let slopeL = (if isCutL B camber fglC gp then cutSlope else fillSlope)
      in if isCutL B camber fglC gp then - 1 / slopeL else 1 / slopeL)"

definition gradR :: "number \<Rightarrow> number \<Rightarrow> number \<Rightarrow> number \<Rightarrow> number \<Rightarrow> Point list \<Rightarrow> number" where
  "gradR B camber cutSlope fillSlope fglC gp =
     (let slopeR = (if isCutR B camber fglC gp then cutSlope else fillSlope)
      in if isCutR B camber fglC gp then 1 / slopeR else - 1 / slopeR)"

definition extendedGround :: "Point list \<Rightarrow> Point list" where
  "extendedGround gp = [Point (- 1000) (py (gp ! 0))] @ gp @ [Point 1000 (py (gp ! 3))]"

text \<open>
  The two toe loops: the segments of the extended ground are scanned in order and the first
  intersection that passes the side's test ends the loop. The ray of a side starts at its
  road edge (\<open>pRoadL\<close>, \<open>pRoadR\<close>) and ends 1000 m further out; a loop that accepts
  nothing leaves the toe at its initial value, the formation edge.
\<close>

fun scanToeL :: "number \<Rightarrow> Point \<Rightarrow> Point \<Rightarrow> Point list \<Rightarrow> Point option" where
  "scanToeL B rayStart rayEnd (g1 # g2 # gs) =
     (case getIntersection rayStart rayEnd g1 g2 of
        Some pt \<Rightarrow> if px pt \<le> - B / 2 + 1 / 1000 then Some pt
                   else scanToeL B rayStart rayEnd (g2 # gs)
      | None \<Rightarrow> scanToeL B rayStart rayEnd (g2 # gs))"
| "scanToeL B rayStart rayEnd gs = None"

fun scanToeR :: "number \<Rightarrow> Point \<Rightarrow> Point \<Rightarrow> Point list \<Rightarrow> Point option" where
  "scanToeR B rayStart rayEnd (g1 # g2 # gs) =
     (case getIntersection rayStart rayEnd g1 g2 of
        Some pt \<Rightarrow> if px pt \<ge> B / 2 - 1 / 1000 then Some pt
                   else scanToeR B rayStart rayEnd (g2 # gs)
      | None \<Rightarrow> scanToeR B rayStart rayEnd (g2 # gs))"
| "scanToeR B rayStart rayEnd gs = None"

definition pRoadL :: "number \<Rightarrow> number \<Rightarrow> number \<Rightarrow> Point" where
  "pRoadL B camber fglC = Point (- B / 2) (fglL_edge B camber fglC)"

definition pRoadR :: "number \<Rightarrow> number \<Rightarrow> number \<Rightarrow> Point" where
  "pRoadR B camber fglC = Point (B / 2) (fglR_edge B camber fglC)"

definition rayEndL :: "number \<Rightarrow> number \<Rightarrow> number \<Rightarrow> number \<Rightarrow> number \<Rightarrow> Point list \<Rightarrow> Point" where
  "rayEndL B camber cutSlope fillSlope fglC gp =
     Point (px (pRoadL B camber fglC) - 1000)
           (py (pRoadL B camber fglC) + gradL B camber cutSlope fillSlope fglC gp * (- 1000))"

definition rayEndR :: "number \<Rightarrow> number \<Rightarrow> number \<Rightarrow> number \<Rightarrow> number \<Rightarrow> Point list \<Rightarrow> Point" where
  "rayEndR B camber cutSlope fillSlope fglC gp =
     Point (px (pRoadR B camber fglC) + 1000)
           (py (pRoadR B camber fglC) + gradR B camber cutSlope fillSlope fglC gp * 1000)"

definition toeL :: "number \<Rightarrow> number \<Rightarrow> number \<Rightarrow> number \<Rightarrow> number \<Rightarrow> Point list \<Rightarrow> Point" where
  "toeL B camber cutSlope fillSlope fglC gp =
     (case scanToeL B (pRoadL B camber fglC) (rayEndL B camber cutSlope fillSlope fglC gp)
             (extendedGround gp) of
        Some pt \<Rightarrow> pt
      | None \<Rightarrow> Point (- B / 2) (gL_at_edge B gp))"

definition toeR :: "number \<Rightarrow> number \<Rightarrow> number \<Rightarrow> number \<Rightarrow> number \<Rightarrow> Point list \<Rightarrow> Point" where
  "toeR B camber cutSlope fillSlope fglC gp =
     (case scanToeR B (pRoadR B camber fglC) (rayEndR B camber cutSlope fillSlope fglC gp)
             (extendedGround gp) of
        Some pt \<Rightarrow> pt
      | None \<Rightarrow> Point (B / 2) (gR_at_edge B gp))"

text \<open>A \<^verbatim>\<open>Set\<close> keeps the first occurrence of each value, in insertion order.\<close>

definition setAdd :: "'a list \<Rightarrow> 'a \<Rightarrow> 'a list" where
  "setAdd s x = (if x \<in> set s then s else s @ [x])"

definition newSet :: "'a list \<Rightarrow> 'a list" where
  "newSet xs = foldl setAdd [] xs"

definition sortedX :: "number \<Rightarrow> Point \<Rightarrow> Point \<Rightarrow> Point list \<Rightarrow> number list" where
  "sortedX B tL tR gp =
     (let criticalX = newSet ([- B / 2, 0, B / 2, px tL, px tR] @ map px gp)
      in filter (\<lambda>x. x \<ge> px tL - 1 / 1000 \<and> x \<le> px tR + 1 / 1000) (sort criticalX))"

definition roadY :: "number \<Rightarrow> number \<Rightarrow> number \<Rightarrow> number \<Rightarrow> number \<Rightarrow> Point list \<Rightarrow> number \<Rightarrow> number" where
  "roadY B camber cutSlope fillSlope fglC gp mid =
     (if mid < - B / 2
      then fglL_edge B camber fglC + gradL B camber cutSlope fillSlope fglC gp * (mid - (- B / 2))
      else if mid > B / 2
      then fglR_edge B camber fglC + gradR B camber cutSlope fillSlope fglC gp * (mid - B / 2)
      else fglC - (\<bar>mid\<bar> / (B / 2)) * camberDrop B camber)"

text \<open>
  The strip loop over consecutive critical offsets. \<open>hf\<close> is the height of the road above
  the ground at an offset; the pair is \<open>(areaCut, areaFill)\<close>.
\<close>

fun stripLoop :: "(number \<Rightarrow> number) \<Rightarrow> number list \<Rightarrow> number \<times> number \<Rightarrow> number \<times> number" where
  "stripLoop hf (x1 # x2 # xs) (areaCut, areaFill) =
     (if \<bar>x2 - x1\<bar> < 1 / 1000 then stripLoop hf (x2 # xs) (areaCut, areaFill)
      else
        let mid = (x1 + x2) / 2;
            h = hf mid;
            w = x2 - x1
        in if h > 0 then stripLoop hf (x2 # xs) (areaCut, areaFill + h * w)
           else stripLoop hf (x2 # xs) (areaCut + \<bar>h\<bar> * w, areaFill))"
| "stripLoop hf xs acc = acc"

definition areas :: "number \<Rightarrow> number \<Rightarrow> number \<Rightarrow> number \<Rightarrow> number \<Rightarrow> Point list \<Rightarrow> number \<times> number" where
  "areas B camber cutSlope fillSlope fglC gp =
     (let tL = toeL B camber cutSlope fillSlope fglC gp;
          tR = toeR B camber cutSlope fillSlope fglC gp
      in stripLoop (\<lambda>mid. roadY B camber cutSlope fillSlope fglC gp mid - getInterpolatedEGL mid gp)
           (sortedX B tL tR gp) (0, 0))"

definition classify :: "number \<Rightarrow> number \<Rightarrow> SectionType" where
  "classify areaCut areaFill =
     (if areaCut > 1 / 100 \<and> areaFill < 1 / 100 then Cut
      else if areaFill > 1 / 100 \<and> areaCut < 1 / 100 then Fill
      else if areaCut > 1 / 100 \<and> areaFill > 1 / 100 then Mixed
      else Level)"

text \<open>
  The body of the first pass for one accepted line, from the ground points on: the values
  are the parsed chainage, the formation level and the four sanitised ground levels.
\<close>

definition sectionRow ::
  "number \<Rightarrow> number \<Rightarrow> number \<Rightarrow> number \<Rightarrow> number \<Rightarrow>
   string \<Rightarrow> int \<Rightarrow> number \<Rightarrow> number \<Rightarrow> number \<Rightarrow> number \<Rightarrow> number \<Rightarrow> EarthworkRow" where
  "sectionRow B medianWidth camber cutSlope fillSlope chStr chM fglC egl15L eglMedL eglMedR egl15R =
     (let gp = groundPts medianWidth egl15L eglMedL eglMedR egl15R;
          tL = toeL B camber cutSlope fillSlope fglC gp;
          tR = toeR B camber cutSlope fillSlope fglC gp;
          (areaCut, areaFill) = areas B camber cutSlope fillSlope fglC gp;
          totalArea = areaCut + areaFill
      in \<lparr> r_chainage = chStr,
           r_chainage_m = chM,
           r_fglC = round3 fglC,
           r_egl15L = round3 egl15L,
           r_eglMedL = round3 eglMedL,
           r_eglMedR = round3 eglMedR,
           r_egl15R = round3 egl15R,
           r_camberDrop = round3 (camberDrop B camber),
           r_hL = round3 (fglL_edge B camber fglC - gL_at_edge B gp),
           r_hR = round3 (fglR_edge B camber fglC - gR_at_edge B gp),
           r_type = classify areaCut areaFill,
           r_B = round3 B,
           r_medianWidth = round3 medianWidth,
           r_usedSlope = (if isCutL B camber fglC gp then cutSlope else fillSlope),
           r_distL = round3 \<bar>px tL - (- B / 2)\<bar>,
           r_distR = round3 \<bar>px tR - (B / 2)\<bar>,
           r_bottomWidth = round3 (px tR - px tL),
           r_area = round3 totalArea,
           r_areaCut = round3 areaCut,
           r_areaFill = round3 areaFill,
           r_spacing = None,
           r_segVolume = 0 \<rparr>)"

section \<open>Second pass: segment volumes and totals\<close>

record CalculationSummary =
  s_totalCut :: number
  s_totalFill :: number
  s_net :: number

record CalculationResult =
  c_rows :: "EarthworkRow list"
  c_summary :: CalculationSummary

text \<open>
  \<^verbatim>\<open>fixedSpacing\<close> is an optional parameter: \<open>None\<close> is \<^verbatim>\<open>undefined\<close> (a not-a-number
  argument fails the test \<^verbatim>\<open>fixedSpacing > 0\<close> and behaves the same).
\<close>

definition spacingL :: "number option \<Rightarrow> EarthworkRow \<Rightarrow> EarthworkRow \<Rightarrow> number" where
  "spacingL fixedSpacing r1 r2 =
     (case fixedSpacing of
        Some f \<Rightarrow> if f > 0 then f else \<bar>of_int (r_chainage_m r2) - of_int (r_chainage_m r1)\<bar>
      | None \<Rightarrow> \<bar>of_int (r_chainage_m r2) - of_int (r_chainage_m r1)\<bar>)"

text \<open>\<^verbatim>\<open>x || 1\<close> on a number that is not not-a-number.\<close>

definition orOne :: "number \<Rightarrow> number" where
  "orOne x = (if x = 0 then 1 else x)"

definition apportion :: "EarthworkRow \<Rightarrow> number \<Rightarrow> number \<times> number \<Rightarrow> number \<times> number" where
  "apportion r V acc =
     (case acc of (totalCut, totalFill) \<Rightarrow>
        if r_type r = Cut then (totalCut + V, totalFill)
        else if r_type r = Fill then (totalCut, totalFill + V)
        else
          let rCut = r_areaCut r / orOne (r_area r);
              rFill = r_areaFill r / orOne (r_area r)
          in (totalCut + V * rCut, totalFill + V * rFill))"

fun volumePass ::
  "number option \<Rightarrow> EarthworkRow list \<Rightarrow> number \<times> number \<Rightarrow> EarthworkRow list \<times> number \<times> number" where
  "volumePass fixedSpacing (r1 # r2 # rs) acc =
     (let L = spacingL fixedSpacing r1 r2;
          A1 = r_area r1;
          A2 = r_area r2;
          V = round3 (((A1 + A2) / 2) * L);
          r1' = r1\<lparr>r_spacing := Some (round3 L), r_segVolume := V\<rparr>;
          acc' = apportion r1' V acc
      in case volumePass fixedSpacing (r2 # rs) acc' of
           (rows, totals) \<Rightarrow> (r1' # rows, totals))"
| "volumePass fixedSpacing rs acc = (rs, acc)"

text \<open>Row \<open>i\<close> as the loop body of the second pass leaves it, given row \<open>i + 1\<close>.\<close>

definition segRow :: "number option \<Rightarrow> EarthworkRow \<Rightarrow> EarthworkRow \<Rightarrow> EarthworkRow" where
  "segRow fixedSpacing r1 r2 =
     r1\<lparr>r_spacing := Some (round3 (spacingL fixedSpacing r1 r2)),
        r_segVolume := round3 (((r_area r1 + r_area r2) / 2) * spacingL fixedSpacing r1 r2)\<rparr>"

definition summarise :: "EarthworkRow list \<times> number \<times> number \<Rightarrow> CalculationResult" where
  "summarise res =
     (case res of (rows, totalCut, totalFill) \<Rightarrow>
        \<lparr> c_rows = rows,
          c_summary = \<lparr> s_totalCut = round3 totalCut,
                        s_totalFill = round3 totalFill,
                        s_net = round3 (totalCut - totalFill) \<rparr> \<rparr>)"

section \<open>Strings\<close>

text \<open>
  Strings are lists of 8-bit characters. \<^verbatim>\<open>trim\<close> strips the ASCII white space,
  \<^verbatim>\<open>toLowerCase\<close> maps the ASCII capitals, \<^verbatim>\<open>includes\<close> is substring search (\<open>str_includes\<close>).
\<close>

definition isWhite :: "char \<Rightarrow> bool" where
  "isWhite c = (c \<in> set [CHR '' '', CHR 0x09, CHR 0x0A, CHR 0x0B, CHR 0x0C, CHR 0x0D])"

definition trim :: "string \<Rightarrow> string" where
  "trim s = rev (dropWhile isWhite (rev (dropWhile isWhite s)))"

definition lowerChar :: "char \<Rightarrow> char" where
  "lowerChar c = (let n = (of_char c :: nat) in if 65 \<le> n \<and> n \<le> 90 then char_of (n + 32) else c)"

definition toLowerCase :: "string \<Rightarrow> string" where
  "toLowerCase s = map lowerChar s"

fun startsWith :: "string \<Rightarrow> string \<Rightarrow> bool" where
  "startsWith s [] = True"
| "startsWith [] (c # cs) = False"
| "startsWith (a # as) (c # cs) = (a = c \<and> startsWith as cs)"

fun str_includes :: "string \<Rightarrow> string \<Rightarrow> bool" where
  "str_includes [] sub = (sub = [])"
| "str_includes (a # as) sub = (startsWith (a # as) sub \<or> str_includes as sub)"

text \<open>\<^verbatim>\<open>split(/[,\t]+/)\<close>: a run of commas and tabs is one separator.\<close>

definition isDelim :: "char \<Rightarrow> bool" where
  "isDelim c = (c = CHR '','' \<or> c = CHR 0x09)"

function splitFields :: "string \<Rightarrow> string \<Rightarrow> string list" where
  "splitFields cur [] = [cur]"
| "splitFields cur (c # cs) =
     (if isDelim c then cur # splitFields [] (dropWhile isDelim cs)
      else splitFields (cur @ [c]) cs)"
  by pat_completeness auto
termination
  by (relation "measure (\<lambda>(cur, s). length s)")
     (auto simp: length_dropWhile_le less_Suc_eq_le)

text \<open>\<^verbatim>\<open>split(/\r?\n/)\<close>: a line feed, with the carriage return before it if there is one.\<close>

fun splitLines :: "string \<Rightarrow> string \<Rightarrow> string list" where
  "splitLines cur [] = [cur]"
| "splitLines cur [c] = (if c = CHR 0x0A then [cur, []] else [cur @ [c]])"
| "splitLines cur (c # d # cs) =
     (if c = CHR 0x0A then cur # splitLines [] (d # cs)
      else if c = CHR 0x0D \<and> d = CHR 0x0A then cur # splitLines [] cs
      else splitLines (cur @ [c]) (d # cs))"

definition nonEmptyLines :: "string \<Rightarrow> string list" where
  "nonEmptyLines csvData = filter (\<lambda>l. length (trim l) > 0) (splitLines [] (trim csvData))"

section \<open>Parsing numbers\<close>

definition isDigit :: "char \<Rightarrow> bool" where
  "isDigit c = (48 \<le> (of_char c :: nat) \<and> (of_char c :: nat) \<le> 57)"

definition digitsToNat :: "string \<Rightarrow> nat" where
  "digitsToNat ds = foldl (\<lambda>n c. n * 10 + (of_char c - 48)) 0 ds"

definition parseSign :: "string \<Rightarrow> number \<times> string" where
  "parseSign s =
     (case s of
        [] \<Rightarrow> (1, [])
      | c # r \<Rightarrow> if c = CHR ''+'' then (1, r) else if c = CHR ''-'' then (- 1, r) else (1, s))"

text \<open>An exponent part is read only when it is complete: \<^verbatim>\<open>e\<close>, an optional sign, digits.\<close>

definition parseExponent :: "string \<Rightarrow> int \<times> string" where
  "parseExponent s =
     (case s of
        [] \<Rightarrow> (0, [])
      | c # r \<Rightarrow>
          if c = CHR ''e'' \<or> c = CHR ''E''
          then (case parseSign r of
                  (sg, r1) \<Rightarrow>
                    if takeWhile isDigit r1 = [] then (0, s)
                    else ((if sg < 0 then - 1 else 1) * int (digitsToNat (takeWhile isDigit r1)),
                          dropWhile isDigit r1))
          else (0, s))"

text \<open>
  The longest prefix that is a signed decimal literal (\<^verbatim>\<open>StrDecimalLiteral\<close> without
  \<^verbatim>\<open>Infinity\<close>), its value and the rest of the string.
\<close>

definition parseDecimal :: "string \<Rightarrow> (number \<times> string) option" where
  "parseDecimal s =
     (case parseSign s of
        (sg, s1) \<Rightarrow>
          let ip = takeWhile isDigit s1;
              s2 = dropWhile isDigit s1;
              fp = (case s2 of [] \<Rightarrow> [] | c # r \<Rightarrow> if c = CHR ''.'' then takeWhile isDigit r else []);
              s3 = (case s2 of [] \<Rightarrow> [] | c # r \<Rightarrow> if c = CHR ''.'' then dropWhile isDigit r else s2)
          in if ip = [] \<and> fp = [] then None
             else
               (case parseExponent s3 of
                  (e, s4) \<Rightarrow>
                    Some (sg * (of_nat (digitsToNat ip) + of_nat (digitsToNat fp) / 10 ^ length fp)
                             * (if e \<ge> 0 then 10 ^ nat e else 1 / 10 ^ nat (- e)),
                          s4)))"

definition parseFloat :: "string \<Rightarrow> number option" where
  "parseFloat s = map_option fst (parseDecimal (dropWhile isWhite s))"

text \<open>\<^verbatim>\<open>Number(s)\<close>: the empty string is 0, otherwise the whole string must be a literal.\<close>

definition toNumber :: "string \<Rightarrow> number option" where
  "toNumber s =
     (let t = trim s
      in if t = [] then Some 0
         else (case parseDecimal t of
                 Some (v, rest) \<Rightarrow> if rest = [] then Some v else None
               | None \<Rightarrow> None))"

text \<open>\<^verbatim>\<open>pNum\<close> on a field of a line; \<open>None\<close> as argument is \<^verbatim>\<open>undefined\<close>.\<close>

definition pNum :: "string option \<Rightarrow> number option" where
  "pNum val =
     (case val of
        None \<Rightarrow> None
      | Some v \<Rightarrow>
          if v = [] then None
          else parseFloat (trim (filter (\<lambda>c. c \<noteq> CHR '','') v)))"

text \<open>The match of \<^verbatim>\<open>/^(\d+)\+(\d{1,3})$/\<close>: the two groups.\<close>

definition matchStation :: "string \<Rightarrow> (string \<times> string) option" where
  "matchStation token =
     (let a = takeWhile isDigit token;
          rest = dropWhile isDigit token
      in case rest of
           [] \<Rightarrow> None
         | c # b \<Rightarrow>
             if a \<noteq> [] \<and> c = CHR ''+'' \<and> 1 \<le> length b \<and> length b \<le> 3 \<and> list_all isDigit b
             then Some (a, b) else None)"

definition padStart3 :: "string \<Rightarrow> string" where
  "padStart3 s = replicate (3 - length s) (CHR ''0'') @ s"

definition stripM :: "string \<Rightarrow> string" where
  "stripM s = (if s \<noteq> [] \<and> (last s = CHR ''m'' \<or> last s = CHR ''M'') then butlast s else s)"

definition chainageToMeters :: "string \<Rightarrow> int option" where
  "chainageToMeters token0 =
     (let token = trim token0
      in case matchStation token of
           Some (a, b) \<Rightarrow> Some (int (digitsToNat a) * 1000 + int (digitsToNat (padStart3 b)))
         | None \<Rightarrow>
             let plain = filter (\<lambda>c. c \<noteq> CHR '','' \<and> c \<noteq> CHR '' '') (stripM token)
             in (case toNumber plain of
                   Some num \<Rightarrow> Some (round num)
                 | None \<Rightarrow> None))"

section \<open>First pass: header, columns, lines\<close>

text \<open>
  The exceptions of \<^verbatim>\<open>computeEarthwork\<close>: the three it throws itself, and the
  \<^verbatim>\<open>TypeError\<close> of \<^verbatim>\<open>token.toString()\<close> when a line has no field at the chainage column.
\<close>

datatype error = NoHeaderRow | MissingChainage | MissingFRL | TypeError

definition mapHeader :: "(string \<rightharpoonup> nat) \<Rightarrow> string \<times> nat \<Rightarrow> (string \<rightharpoonup> nat)" where
  "mapHeader colMap hi =
     (case hi of (h, i) \<Rightarrow>
        if str_includes h ''chain'' then colMap(''ch'' \<mapsto> i)
        else if str_includes h ''prop'' \<or> str_includes h ''frl'' \<or> str_includes h ''fgl''
        then colMap(''fgl'' \<mapsto> i)
        else if str_includes h ''15m_left'' \<or> h = ''l15'' \<or> str_includes h ''egl_15m_l''
        then colMap(''l15'' \<mapsto> i)
        else if str_includes h ''median_lhs'' \<or> str_includes h ''med_l''
        then colMap(''med_l'' \<mapsto> i)
        else if str_includes h ''median_rhs'' \<or> str_includes h ''med_r''
        then colMap(''med_r'' \<mapsto> i)
        else if str_includes h ''15m_right'' \<or> h = ''r15'' \<or> str_includes h ''egl_15m_r''
        then colMap(''r15'' \<mapsto> i)
        else if h = ''egl'' \<or> str_includes h ''ground''
        then colMap(''egl_generic'' \<mapsto> i)
        else colMap)"

definition headersOf :: "string \<Rightarrow> string list" where
  "headersOf line = map (\<lambda>h. toLowerCase (trim h)) (splitFields [] line)"

definition columnMap :: "string list \<Rightarrow> (string \<rightharpoonup> nat)" where
  "columnMap headers = foldl mapHeader Map.empty (zip headers [0..<length headers])"

text \<open>\<^verbatim>\<open>cols[i]\<close>: \<^verbatim>\<open>undefined\<close> past the end.\<close>

definition field :: "string list \<Rightarrow> nat \<Rightarrow> string option" where
  "field cols i = (if i < length cols then Some (cols ! i) else None)"

text \<open>The four ground levels of a line before they are sanitised.\<close>

definition eglRaw ::
  "(string \<rightharpoonup> nat) \<Rightarrow> string list \<Rightarrow> number \<Rightarrow>
   number option \<times> number option \<times> number option \<times> number option" where
  "eglRaw colMap cols fglC =
     (case (colMap ''l15'', colMap ''med_l'', colMap ''med_r'', colMap ''r15'') of
        (Some a, Some b, Some c, Some d) \<Rightarrow>
          (pNum (field cols a), pNum (field cols b), pNum (field cols c), pNum (field cols d))
      | _ \<Rightarrow>
          (case colMap ''egl_generic'' of
             Some g \<Rightarrow> (let val = pNum (field cols g) in (val, val, val, val))
           | None \<Rightarrow>
               if length cols \<ge> 6 \<and> pNum (field cols 2) \<noteq> None \<and> pNum (field cols 5) \<noteq> None
               then (pNum (field cols 2), pNum (field cols 3), pNum (field cols 4), pNum (field cols 5))
               else (Some fglC, Some fglC, Some fglC, Some fglC)))"

definition orElse :: "number option \<Rightarrow> number \<Rightarrow> number" where
  "orElse v d = (case v of None \<Rightarrow> d | Some x \<Rightarrow> x)"

text \<open>
  One iteration of the line loop: \<open>Inr None\<close> is \<^verbatim>\<open>continue\<close>, \<open>Inr (Some r)\<close> the row
  pushed, \<open>Inl\<close> an exception.
\<close>

definition lineRow ::
  "number \<Rightarrow> number \<Rightarrow> number \<Rightarrow> number \<Rightarrow> number \<Rightarrow>
   (string \<rightharpoonup> nat) \<Rightarrow> nat \<Rightarrow> nat \<Rightarrow> string \<Rightarrow> error + EarthworkRow option" where
  "lineRow B medianWidth camber cutSlope fillSlope colMap ch fgl line =
     (let cols = map trim (splitFields [] line)
      in if length cols < 2 then Inr None
         else
           (case field cols ch of
              None \<Rightarrow> Inl TypeError
            | Some chStr \<Rightarrow>
                (case (chainageToMeters chStr, pNum (field cols fgl)) of
                   (Some chM, Some fglC) \<Rightarrow>
                     (case eglRaw colMap cols fglC of
                        (e1, e2, e3, e4) \<Rightarrow>
                          let egl15L = orElse e1 fglC;
                              eglMedL = orElse e2 egl15L;
                              eglMedR = orElse e3 eglMedL;
                              egl15R = orElse e4 eglMedR
                          in Inr (Some (sectionRow B medianWidth camber cutSlope fillSlope
                                          chStr chM fglC egl15L eglMedL eglMedR egl15R)))
                 | _ \<Rightarrow> Inr None)))"

fun firstPass :: "(string \<Rightarrow> error + EarthworkRow option) \<Rightarrow> string list \<Rightarrow> error + EarthworkRow list" where
  "firstPass f [] = Inr []"
| "firstPass f (l # ls) =
     (case f l of
        Inl e \<Rightarrow> Inl e
      | Inr None \<Rightarrow> firstPass f ls
      | Inr (Some r) \<Rightarrow>
          (case firstPass f ls of
             Inl e \<Rightarrow> Inl e
           | Inr rows \<Rightarrow> Inr (r # rows)))"

definition computeEarthwork ::
  "string \<Rightarrow> number \<Rightarrow> number \<Rightarrow> number \<Rightarrow> number \<Rightarrow> number \<Rightarrow> number option
   \<Rightarrow> error + CalculationResult" where
  "computeEarthwork csvData B medianWidth camber cutSlope fillSlope fixedSpacing =
     (let lines = nonEmptyLines csvData
      in if length lines < 2 then Inl NoHeaderRow
         else
           let colMap = columnMap (headersOf (lines ! 0))
           in (case colMap ''ch'' of
                 None \<Rightarrow> Inl MissingChainage
               | Some ch \<Rightarrow>
                   (case colMap ''fgl'' of
                      None \<Rightarrow> Inl MissingFRL
                    | Some fgl \<Rightarrow>
                        (case firstPass (lineRow B medianWidth camber cutSlope fillSlope colMap ch fgl)
                                (tl lines) of
                           Inl e \<Rightarrow> Inl e
                         | Inr rows \<Rightarrow> Inr (summarise (volumePass fixedSpacing rows (0, 0)))))))"

section \<open>The apportionment rule in the words of the specification\<close>

text \<open>
  The share of a row's segment volume that goes to each total: all of it for a pure row,
  split by the row's own area ratios otherwise, with a zero area read as denominator 1.
\<close>

definition specCutShare :: "EarthworkRow \<Rightarrow> number" where
  "specCutShare r =
     (if r_type r = Cut then r_segVolume r
      else if r_type r = Fill then 0
      else r_segVolume r * r_areaCut r / (if r_area r = 0 then 1 else r_area r))"

definition specFillShare :: "EarthworkRow \<Rightarrow> number" where
  "specFillShare r =
     (if r_type r = Cut then 0
      else if r_type r = Fill then r_segVolume r
      else r_segVolume r * r_areaFill r / (if r_area r = 0 then 1 else r_area r))"

section \<open>The scenarios of the specification as inputs\<close>

text \<open>
  Two stations of scenario A (formation width 20, camber 0, formation level 100, flat ground
  at 95, slopes 1 and 2, median width 4 as the application sets it by default), 20 m apart as
  in scenario B, and the result the calculator returns for them.
\<close>

definition scenarioCsv :: string where
  "scenarioCsv =
     ''Chainage,FRL,EGL'' @ [CHR 0x0A] @ ''0+000,100,95'' @ [CHR 0x0A] @ ''0+020,100,95''"

definition scenarioRow :: "string \<Rightarrow> int \<Rightarrow> EarthworkRow" where
  "scenarioRow chStr chM =
     \<lparr> r_chainage = chStr, r_chainage_m = chM, r_fglC = 100,
       r_egl15L = 95, r_eglMedL = 95, r_eglMedR = 95, r_egl15R = 95,
       r_camberDrop = 0, r_hL = 5, r_hR = 5, r_type = Fill, r_B = 20, r_medianWidth = 4,
       r_usedSlope = 2, r_distL = 10, r_distR = 10, r_bottomWidth = 40,
       r_area = 150, r_areaCut = 0, r_areaFill = 150, r_spacing = None, r_segVolume = 0 \<rparr>"

definition scenarioResult :: CalculationResult where
  "scenarioResult =
     \<lparr> c_rows = [(scenarioRow ''0+000'' 0)\<lparr>r_spacing := Some 20, r_segVolume := 3000\<rparr>,
                 scenarioRow ''0+020'' 20],
       c_summary = \<lparr> s_totalCut = 0, s_totalFill = 3000, s_net = - 3000 \<rparr> \<rparr>"

text \<open>
  A level first station (ground at the formation level) before the second station of the
  scenario, the result for it, and a row with the areas of the specification's mixed example.
\<close>

definition levelCsv :: string where
  "levelCsv =
     ''Chainage,FRL,EGL'' @ [CHR 0x0A] @ ''0+000,100,100'' @ [CHR 0x0A] @ ''0+020,100,95''"

definition levelRow :: EarthworkRow where
  "levelRow =
     \<lparr> r_chainage = ''0+000'', r_chainage_m = 0, r_fglC = 100,
       r_egl15L = 100, r_eglMedL = 100, r_eglMedR = 100, r_egl15R = 100,
       r_camberDrop = 0, r_hL = 0, r_hR = 0, r_type = Level, r_B = 20, r_medianWidth = 4,
       r_usedSlope = 2, r_distL = 0, r_distR = 0, r_bottomWidth = 20,
       r_area = 0, r_areaCut = 0, r_areaFill = 0, r_spacing = None, r_segVolume = 0 \<rparr>"

definition levelResult :: CalculationResult where
  "levelResult =
     \<lparr> c_rows = [levelRow\<lparr>r_spacing := Some 20, r_segVolume := 1500\<rparr>,
                 scenarioRow ''0+020'' 20],
       c_summary = \<lparr> s_totalCut = 0, s_totalFill = 0, s_net = 0 \<rparr> \<rparr>"

definition mixedRow :: EarthworkRow where
  "mixedRow = levelRow\<lparr>r_type := Mixed, r_area := 100, r_areaCut := 30, r_areaFill := 70\<rparr>"

text \<open>
  The same row with a zero total area, and a row of type \<open>Cut\<close>: rows the first pass does not
  produce, on which one step of the apportionment is observed.
\<close>

definition zeroAreaRow :: EarthworkRow where
  "zeroAreaRow = mixedRow\<lparr>r_area := 0\<rparr>"

definition cutRow :: EarthworkRow where
  "cutRow = mixedRow\<lparr>r_type := Cut\<rparr>"

text \<open>
  A shallow fill on a formation of width 1 (ground 0.01 below the formation level).
\<close>

definition shallowCsv :: string where
  "shallowCsv = ''Chainage,FRL,EGL'' @ [CHR 0x0A] @ ''0+000,100,99.99''"

definition shallowRow :: EarthworkRow where
  "shallowRow =
     \<lparr> r_chainage = ''0+000'', r_chainage_m = 0, r_fglC = 100,
       r_egl15L = 9999 / 100, r_eglMedL = 9999 / 100, r_eglMedR = 9999 / 100,
       r_egl15R = 9999 / 100,
       r_camberDrop = 0, r_hL = 1 / 100, r_hR = 1 / 100, r_type = Fill, r_B = 1,
       r_medianWidth = 4, r_usedSlope = 2, r_distL = 1 / 50, r_distR = 1 / 50,
       r_bottomWidth = 26 / 25,
       r_area = 1 / 100, r_areaCut = 0, r_areaFill = 1 / 100, r_spacing = None,
       r_segVolume = 0 \<rparr>"

definition shallowResult :: CalculationResult where
  "shallowResult =
     \<lparr> c_rows = [shallowRow],
       c_summary = \<lparr> s_totalCut = 0, s_totalFill = 0, s_net = 0 \<rparr> \<rparr>"

text \<open>
  Texts whose header has no chainage name, no level name, and a text whose only data line
  has an empty chainage field.
\<close>

definition noChainageCsv :: string where
  "noChainageCsv = ''Station,FRL,EGL'' @ [CHR 0x0A] @ ''0+000,100,95''"

definition noLevelCsv :: string where
  "noLevelCsv = ''Chainage,Level,EGL'' @ [CHR 0x0A] @ ''0+000,100,95''"

definition blankChainageCsv :: string where
  "blankChainageCsv = ''Chainage,FRL,EGL'' @ [CHR 0x0A] @ '',100,95''"

section \<open>Rounding\<close>

lemma round3_of_int_div: "round3 (of_int n / 1000) = of_int n / 1000"
  by (simp add: round3_def)

lemma round3_idem: "round3 (round3 x) = round3 x"
  unfolding round3_def[of x] by (rule round3_of_int_div)

lemma round3_of_int: "round3 (of_int n) = of_int n"
proof -
  have "(of_int n :: rat) * 1000 = of_int (n * 1000)" by simp
  then have "round ((of_int n :: rat) * 1000) = n * 1000"
    by (simp only: round_of_int)
  then show ?thesis by (simp add: round3_def)
qed

lemma round3_zero: "round3 0 = 0"
  by (simp add: round3_def)

lemma round3_mono: "x \<le> y \<Longrightarrow> round3 x \<le> round3 y"
  by (simp add: round3_def round_mono divide_right_mono)

lemma round3_nonneg: "0 \<le> x \<Longrightarrow> 0 \<le> round3 x"
  using round3_mono[of 0 x] by (simp add: round3_zero)

lemma round3_split:
  "\<bar>round3 a + round3 b - round3 (a + b)\<bar> \<le> 1 / 1000"
proof -
  define na where "na = round (a * 1000)"
  define nb where "nb = round (b * 1000)"
  define nc where "nc = round ((a + b) * 1000)"
  have ea: "\<bar>of_int na - a * 1000\<bar> \<le> 1 / 2"
    unfolding na_def by (rule of_int_round_abs_le)
  have eb: "\<bar>of_int nb - b * 1000\<bar> \<le> 1 / 2"
    unfolding nb_def by (rule of_int_round_abs_le)
  have "\<bar>of_int nc - (a + b) * 1000\<bar> \<le> 1 / 2"
    unfolding nc_def by (rule of_int_round_abs_le)
  then have ec: "\<bar>of_int nc - (a * 1000 + b * 1000)\<bar> \<le> 1 / 2"
    by (simp only: distrib_right)
  have "\<bar>(of_int na + of_int nb - of_int nc :: rat)\<bar> \<le> 3 / 2"
    using ea eb ec by linarith
  then have "\<bar>(of_int (na + nb - nc) :: rat)\<bar> < of_int 2"
    by simp
  then have "\<bar>na + nb - nc\<bar> < 2"
    unfolding of_int_abs[symmetric] of_int_less_iff .
  then have "\<bar>na + nb - nc\<bar> \<le> 1" by simp
  then have "(of_int \<bar>na + nb - nc\<bar> :: rat) \<le> of_int 1"
    unfolding of_int_le_iff .
  then have "\<bar>(of_int na + of_int nb - of_int nc :: rat) / 1000\<bar> \<le> 1 / 1000"
    by simp
  then show ?thesis
    unfolding round3_def na_def nb_def nc_def by (simp add: diff_divide_distrib add_divide_distrib)
qed

section \<open>Areas are not negative\<close>

lemma stripLoop_nonneg:
  "sorted xs \<Longrightarrow> 0 \<le> fst acc \<Longrightarrow> 0 \<le> snd acc \<Longrightarrow>
   0 \<le> fst (stripLoop hf xs acc) \<and> 0 \<le> snd (stripLoop hf xs acc)"
proof (induction hf xs acc rule: stripLoop.induct)
  case (1 hf x1 x2 xs areaCut areaFill)
  have le: "x1 \<le> x2" and srt: "sorted (x2 # xs)" using "1.prems"(1) by auto
  show ?case
  proof (cases "\<bar>x2 - x1\<bar> < 1 / 1000")
    case True
    then show ?thesis using "1.IH"(1) srt "1.prems" by simp
  next
    case False
    note nf = False
    show ?thesis
    proof (cases "hf ((x1 + x2) / 2) > 0")
      case True
      have "0 \<le> areaFill + hf ((x1 + x2) / 2) * (x2 - x1)"
        using True le "1.prems"(3) by simp
      then show ?thesis
        using "1.IH"(2)[OF nf refl refl refl True srt] "1.prems"(2) nf True
        by (simp add: Let_def)
    next
      case False
      have "0 \<le> areaCut + \<bar>hf ((x1 + x2) / 2)\<bar> * (x2 - x1)"
        using le "1.prems"(2) by simp
      then show ?thesis
        using "1.IH"(3)[OF nf refl refl refl False srt] "1.prems"(3) nf False
        by (simp add: Let_def)
    qed
  qed
qed simp_all

lemma sorted_sortedX: "sorted (sortedX B tL tR gp)"
  by (simp add: sortedX_def Let_def sorted_wrt_filter)

lemma areas_nonneg:
  "0 \<le> fst (areas B camber cutSlope fillSlope fglC gp) \<and>
   0 \<le> snd (areas B camber cutSlope fillSlope fglC gp)"
  unfolding areas_def Let_def
  by (rule stripLoop_nonneg) (simp_all add: sorted_sortedX)

section \<open>Toes lie outside the formation\<close>

lemma getIntersection_px:
  assumes "getIntersection p1 p2 p3 p4 = Some pt"
  shows "\<exists>ua. 0 \<le> ua \<and> ua \<le> 1 \<and> px pt = px p1 + ua * (px p2 - px p1)"
  using assms unfolding getIntersection_def Let_def
  by (auto split: if_splits)

lemma scanToeL_left:
  "scanToeL B rs re gs = Some pt \<Longrightarrow> px re \<le> px rs \<Longrightarrow> px pt \<le> px rs"
proof (induction B rs re gs rule: scanToeL.induct)
  case (1 B rayStart rayEnd g1 g2 gs)
  show ?case
  proof (cases "getIntersection rayStart rayEnd g1 g2")
    case None
    then show ?thesis using 1 by simp
  next
    case (Some q)
    show ?thesis
    proof (cases "px q \<le> - B / 2 + 1 / 1000")
      case True
      then have "pt = q" using "1.prems"(1) Some by simp
      moreover obtain ua where "0 \<le> ua" "px q = px rayStart + ua * (px rayEnd - px rayStart)"
        using getIntersection_px[OF Some] by blast
      ultimately show ?thesis using "1.prems"(2)
        by (simp add: mult_nonneg_nonpos)
    next
      case False
      then show ?thesis using 1 Some by simp
    qed
  qed
qed simp_all

lemma scanToeR_right:
  "scanToeR B rs re gs = Some pt \<Longrightarrow> px rs \<le> px re \<Longrightarrow> px rs \<le> px pt"
proof (induction B rs re gs rule: scanToeR.induct)
  case (1 B rayStart rayEnd g1 g2 gs)
  show ?case
  proof (cases "getIntersection rayStart rayEnd g1 g2")
    case None
    then show ?thesis using 1 by simp
  next
    case (Some q)
    show ?thesis
    proof (cases "px q \<ge> B / 2 - 1 / 1000")
      case True
      then have "pt = q" using "1.prems"(1) Some by simp
      moreover obtain ua where "0 \<le> ua" "px q = px rayStart + ua * (px rayEnd - px rayStart)"
        using getIntersection_px[OF Some] by blast
      ultimately show ?thesis using "1.prems"(2)
        by simp
    next
      case False
      then show ?thesis using 1 Some by simp
    qed
  qed
qed simp_all

lemma toeL_le: "px (toeL B camber cutSlope fillSlope fglC gp) \<le> - B / 2"
proof (cases "scanToeL B (pRoadL B camber fglC) (rayEndL B camber cutSlope fillSlope fglC gp)
                (extendedGround gp)")
  case None
  then show ?thesis by (simp add: toeL_def)
next
  case (Some pt)
  have "px pt \<le> px (pRoadL B camber fglC)"
    by (rule scanToeL_left[OF Some]) (simp add: rayEndL_def)
  then show ?thesis using Some by (simp add: toeL_def pRoadL_def)
qed

lemma toeR_ge: "B / 2 \<le> px (toeR B camber cutSlope fillSlope fglC gp)"
proof (cases "scanToeR B (pRoadR B camber fglC) (rayEndR B camber cutSlope fillSlope fglC gp)
                (extendedGround gp)")
  case None
  then show ?thesis by (simp add: toeR_def)
next
  case (Some pt)
  have "px (pRoadR B camber fglC) \<le> px pt"
    by (rule scanToeR_right[OF Some]) (simp add: rayEndR_def)
  then show ?thesis using Some by (simp add: toeR_def pRoadR_def)
qed

section \<open>The rows of a result\<close>

lemma lineRow_sectionRow:
  assumes "lineRow B medianWidth camber cutSlope fillSlope colMap ch fgl line = Inr (Some r)"
  shows "\<exists>chStr chM fglC e1 e2 e3 e4.
           r = sectionRow B medianWidth camber cutSlope fillSlope chStr chM fglC e1 e2 e3 e4"
  using assms unfolding lineRow_def Let_def
  by (auto split: if_splits option.splits prod.splits) blast

lemma firstPass_rows:
  "firstPass f ls = Inr rows \<Longrightarrow> r \<in> set rows \<Longrightarrow> \<exists>l \<in> set ls. f l = Inr (Some r)"
proof (induction ls arbitrary: rows)
  case Nil
  then show ?case by simp
next
  case (Cons l ls)
  show ?case
  proof (cases "f l")
    case (Inl e)
    then show ?thesis using Cons.prems by simp
  next
    case (Inr o1)
    show ?thesis
    proof (cases o1)
      case None
      then show ?thesis using Cons Inr by auto
    next
      case (Some r1)
      then obtain rows1 where fp: "firstPass f ls = Inr rows1" and rs: "rows = r1 # rows1"
        using Cons.prems(1) Inr by (auto split: sum.splits)
      show ?thesis
      proof (cases "r = r1")
        case True
        then show ?thesis using Inr Some by simp
      next
        case False
        then have "r \<in> set rows1" using Cons.prems(2) rs by simp
        then show ?thesis using Cons.IH[OF fp] by auto
      qed
    qed
  qed
qed

lemma volumePass_step:
  "volumePass fixedSpacing (r1 # r2 # rs) acc =
     (segRow fixedSpacing r1 r2 #
        fst (volumePass fixedSpacing (r2 # rs)
               (apportion (segRow fixedSpacing r1 r2) (r_segVolume (segRow fixedSpacing r1 r2)) acc)),
      snd (volumePass fixedSpacing (r2 # rs)
             (apportion (segRow fixedSpacing r1 r2) (r_segVolume (segRow fixedSpacing r1 r2)) acc)))"
  by (simp add: Let_def segRow_def split: prod.splits)

lemma volumePass_length:
  "length (fst (volumePass fixedSpacing rows acc)) = length rows"
  by (induction rows arbitrary: acc rule: induct_list012)
     (simp_all add: volumePass_step del: volumePass.simps(1))

lemma volumePass_nth:
  "i < length rows \<Longrightarrow>
   \<exists>sp v. fst (volumePass fixedSpacing rows acc) ! i = (rows ! i)\<lparr>r_spacing := sp, r_segVolume := v\<rparr>"
proof (induction rows arbitrary: acc i rule: induct_list012)
  case 1
  then show ?case by simp
next
  case (2 r)
  then have "i = 0" by simp
  moreover have "r = r\<lparr>r_spacing := r_spacing r, r_segVolume := r_segVolume r\<rparr>" by simp
  ultimately show ?case by (metis fst_conv nth_Cons_0 volumePass.simps(3))
next
  case (3 r1 r2 rs)
  show ?case
  proof (cases i)
    case 0
    then show ?thesis
      by (simp add: volumePass_step segRow_def del: volumePass.simps(1)) blast
  next
    case (Suc j)
    then have "j < length (r2 # rs)" using "3.prems" by simp
    from "3.IH"(2)[OF this]
    show ?thesis using Suc by (simp add: volumePass_step del: volumePass.simps(1))
  qed
qed

lemma computeEarthwork_rows:
  assumes "computeEarthwork csvData B medianWidth camber cutSlope fillSlope fixedSpacing = Inr res"
      and "r \<in> set (c_rows res)"
  shows "\<exists>chStr chM fglC e1 e2 e3 e4 sp v.
           r = (sectionRow B medianWidth camber cutSlope fillSlope chStr chM fglC e1 e2 e3 e4)
                 \<lparr>r_spacing := sp, r_segVolume := v\<rparr>"
proof -
  from assms(1) obtain colMap ch fgl rows where
    fp: "firstPass (lineRow B medianWidth camber cutSlope fillSlope colMap ch fgl)
           (tl (nonEmptyLines csvData)) = Inr rows"
    and res: "res = summarise (volumePass fixedSpacing rows (0, 0))"
    unfolding computeEarthwork_def Let_def
    by (auto split: if_splits option.splits sum.splits)
  have rows': "c_rows res = fst (volumePass fixedSpacing rows (0, 0))"
    unfolding res summarise_def by (simp split: prod.splits)
  from assms(2) obtain i where i: "i < length rows" and ri: "r = c_rows res ! i"
    unfolding rows' by (metis in_set_conv_nth volumePass_length)
  obtain sp v where upd: "r = (rows ! i)\<lparr>r_spacing := sp, r_segVolume := v\<rparr>"
    using volumePass_nth[OF i] ri rows' by metis
  have "rows ! i \<in> set rows" using i by simp
  then obtain l where "lineRow B medianWidth camber cutSlope fillSlope colMap ch fgl l = Inr (Some (rows ! i))"
    using firstPass_rows[OF fp] by blast
  from lineRow_sectionRow[OF this] show ?thesis using upd by metis
qed

lemma sectionRow_fields:
  "sectionRow B medianWidth camber cutSlope fillSlope chStr chM fglC egl15L eglMedL eglMedR egl15R =
     \<lparr> r_chainage = chStr,
       r_chainage_m = chM,
       r_fglC = round3 fglC,
       r_egl15L = round3 egl15L,
       r_eglMedL = round3 eglMedL,
       r_eglMedR = round3 eglMedR,
       r_egl15R = round3 egl15R,
       r_camberDrop = round3 (camberDrop B camber),
       r_hL = round3 (fglL_edge B camber fglC
                - gL_at_edge B (groundPts medianWidth egl15L eglMedL eglMedR egl15R)),
       r_hR = round3 (fglR_edge B camber fglC
                - gR_at_edge B (groundPts medianWidth egl15L eglMedL eglMedR egl15R)),
       r_type = classify
                  (fst (areas B camber cutSlope fillSlope fglC
                          (groundPts medianWidth egl15L eglMedL eglMedR egl15R)))
                  (snd (areas B camber cutSlope fillSlope fglC
                          (groundPts medianWidth egl15L eglMedL eglMedR egl15R))),
       r_B = round3 B,
       r_medianWidth = round3 medianWidth,
       r_usedSlope = (if isCutL B camber fglC (groundPts medianWidth egl15L eglMedL eglMedR egl15R)
                      then cutSlope else fillSlope),
       r_distL = round3 \<bar>px (toeL B camber cutSlope fillSlope fglC
                               (groundPts medianWidth egl15L eglMedL eglMedR egl15R)) - (- B / 2)\<bar>,
       r_distR = round3 \<bar>px (toeR B camber cutSlope fillSlope fglC
                               (groundPts medianWidth egl15L eglMedL eglMedR egl15R)) - (B / 2)\<bar>,
       r_bottomWidth = round3 (px (toeR B camber cutSlope fillSlope fglC
                                     (groundPts medianWidth egl15L eglMedL eglMedR egl15R))
                               - px (toeL B camber cutSlope fillSlope fglC
                                       (groundPts medianWidth egl15L eglMedL eglMedR egl15R))),
       r_area = round3 (fst (areas B camber cutSlope fillSlope fglC
                               (groundPts medianWidth egl15L eglMedL eglMedR egl15R))
                        + snd (areas B camber cutSlope fillSlope fglC
                                 (groundPts medianWidth egl15L eglMedL eglMedR egl15R))),
       r_areaCut = round3 (fst (areas B camber cutSlope fillSlope fglC
                                  (groundPts medianWidth egl15L eglMedL eglMedR egl15R))),
       r_areaFill = round3 (snd (areas B camber cutSlope fillSlope fglC
                                   (groundPts medianWidth egl15L eglMedL eglMedR egl15R))),
       r_spacing = None,
       r_segVolume = 0 \<rparr>"
  by (simp add: sectionRow_def Let_def case_prod_beta)

lemma computeEarthwork_InrD:
  assumes "computeEarthwork csvData B medianWidth camber cutSlope fillSlope fixedSpacing = Inr res"
  shows "\<exists>colMap ch fgl rows.
           firstPass (lineRow B medianWidth camber cutSlope fillSlope colMap ch fgl)
             (tl (nonEmptyLines csvData)) = Inr rows \<and>
           res = summarise (volumePass fixedSpacing rows (0, 0))"
  using assms unfolding computeEarthwork_def Let_def
  by (auto split: if_splits option.splits sum.splits)

lemma firstPass_fresh:
  assumes "firstPass (lineRow B medianWidth camber cutSlope fillSlope colMap ch fgl) ls = Inr rows"
      and "r \<in> set rows"
  shows "r_spacing r = None \<and> r_segVolume r = 0"
proof -
  obtain l where "lineRow B medianWidth camber cutSlope fillSlope colMap ch fgl l = Inr (Some r)"
    using firstPass_rows[OF assms] by blast
  from lineRow_sectionRow[OF this] show ?thesis
    by (auto simp: sectionRow_fields)
qed

lemma volumePass_seg:
  "Suc i < length rows \<Longrightarrow>
   fst (volumePass fixedSpacing rows acc) ! i = segRow fixedSpacing (rows ! i) (rows ! Suc i)"
proof (induction rows arbitrary: acc i rule: induct_list012)
  case (3 r1 r2 rs)
  show ?case
  proof (cases i)
    case 0
    then show ?thesis by (simp add: volumePass_step del: volumePass.simps(1))
  next
    case (Suc j)
    then have "Suc j < length (r2 # rs)" using "3.prems" by simp
    from "3.IH"(2)[OF this]
    show ?thesis using Suc by (simp add: volumePass_step del: volumePass.simps(1))
  qed
qed simp_all

lemma volumePass_last:
  "rows \<noteq> [] \<Longrightarrow> last (fst (volumePass fixedSpacing rows acc)) = last rows"
proof (induction rows arbitrary: acc rule: induct_list012)
  case (3 r1 r2 rs)
  have "fst (volumePass fixedSpacing (r2 # rs) a) \<noteq> []" for a
    using volumePass_length[of fixedSpacing "r2 # rs" a] by (metis length_0_conv list.distinct(1))
  then show ?case using "3.IH"(2)
    by (simp add: volumePass_step del: volumePass.simps(1))
qed simp_all

lemma volumePass_keeps:
  assumes "j < length rows"
  shows "r_area (fst (volumePass fixedSpacing rows acc) ! j) = r_area (rows ! j) \<and>
         r_chainage_m (fst (volumePass fixedSpacing rows acc) ! j) = r_chainage_m (rows ! j)"
proof -
  obtain sp v where
    "fst (volumePass fixedSpacing rows acc) ! j = (rows ! j)\<lparr>r_spacing := sp, r_segVolume := v\<rparr>"
    using volumePass_nth[OF assms] by blast
  then show ?thesis by simp
qed

lemma apportion_shares:
  "apportion r (r_segVolume r) acc = (fst acc + specCutShare r, snd acc + specFillShare r)"
  by (cases acc) (simp add: apportion_def specCutShare_def specFillShare_def orOne_def Let_def)

lemma volumePass_totals:
  "snd (volumePass fixedSpacing rows acc) =
     (fst acc + (\<Sum>i<length rows - 1. specCutShare (segRow fixedSpacing (rows ! i) (rows ! Suc i))),
      snd acc + (\<Sum>i<length rows - 1. specFillShare (segRow fixedSpacing (rows ! i) (rows ! Suc i))))"
proof (induction rows arbitrary: acc rule: induct_list012)
  case 1
  show ?case by simp
next
  case (2 r)
  show ?case by simp
next
  case (3 r1 r2 rs)
  show ?case
    by (simp add: volumePass_step "3.IH"(2) apportion_shares sum.lessThan_Suc_shift add.assoc
             del: volumePass.simps(1) sum.lessThan_Suc)
qed

section \<open>Running the scenario\<close>

lemmas str_defs = trim_def isWhite_def isDelim_def isDigit_def lowerChar_def toLowerCase_def
  char_of_def bit_0
lemmas num_defs = chainageToMeters_def matchStation_def toNumber_def parseDecimal_def parseSign_def
  parseExponent_def digitsToNat_def stripM_def padStart3_def pNum_def parseFloat_def

lemma scenario_lines:
  "nonEmptyLines scenarioCsv = [''Chainage,FRL,EGL'', ''0+000,100,95'', ''0+020,100,95'']"
  by (simp add: nonEmptyLines_def scenarioCsv_def str_defs)

lemma scenario_headers: "headersOf ''Chainage,FRL,EGL'' = [''chainage'', ''frl'', ''egl'']"
  by (simp add: headersOf_def str_defs)

lemma scenario_columns:
  "columnMap [''chainage'', ''frl'', ''egl''] = [''ch'' \<mapsto> 0, ''fgl'' \<mapsto> Suc 0, ''egl_generic'' \<mapsto> 2]"
  by (simp add: columnMap_def mapHeader_def upt_rec numeral_2_eq_2)

lemma scenario_line1:
  "lineRow B mw camber cs fs [''ch'' \<mapsto> 0, ''fgl'' \<mapsto> Suc 0, ''egl_generic'' \<mapsto> 2] 0 (Suc 0) ''0+000,100,95''
   = Inr (Some (sectionRow B mw camber cs fs ''0+000'' 0 100 95 95 95 95))"
  by (simp add: lineRow_def str_defs num_defs field_def eglRaw_def orElse_def Let_def)

lemma scenario_line2:
  "lineRow B mw camber cs fs [''ch'' \<mapsto> 0, ''fgl'' \<mapsto> Suc 0, ''egl_generic'' \<mapsto> 2] 0 (Suc 0) ''0+020,100,95''
   = Inr (Some (sectionRow B mw camber cs fs ''0+020'' 20 100 95 95 95 95))"
  by (simp add: lineRow_def str_defs num_defs field_def eglRaw_def orElse_def Let_def)

lemma scenario_run:
  "computeEarthwork scenarioCsv B mw camber cs fs fx =
     Inr (summarise (volumePass fx
            [sectionRow B mw camber cs fs ''0+000'' 0 100 95 95 95 95,
             sectionRow B mw camber cs fs ''0+020'' 20 100 95 95 95 95] (0, 0)))"
  by (simp add: computeEarthwork_def scenario_lines scenario_headers scenario_columns
        scenario_line1 scenario_line2 Let_def del: volumePass.simps)

lemma scenario_toeL: "toeL 20 0 1 2 100 (groundPts 4 95 95 95 95) = Point (- 20) 95"
  by code_simp

lemma scenario_toeR: "toeR 20 0 1 2 100 (groundPts 4 95 95 95 95) = Point 20 95"
  by code_simp

lemma scenario_areas: "areas 20 0 1 2 100 (groundPts 4 95 95 95 95) = (0, 150)"
  by code_simp

lemma scenario_edge:
  "gL_at_edge 20 (groundPts 4 95 95 95 95) = 95 \<and> gR_at_edge 20 (groundPts 4 95 95 95 95) = 95"
  by code_simp

lemma scenario_fill_sides:
  "\<not> isCutL 20 0 100 (groundPts 4 95 95 95 95) \<and> \<not> isCutR 20 0 100 (groundPts 4 95 95 95 95)"
  by code_simp

lemma round3_numeral: "round3 (numeral n) = numeral n"
  using round3_of_int[of "numeral n"] by simp

lemma round3_neg_numeral: "round3 (- numeral n) = - numeral n"
  using round3_of_int[of "- numeral n"] by simp

lemma scenario_row: "sectionRow 20 4 0 1 2 chStr chM 100 95 95 95 95 = scenarioRow chStr chM"
  by (simp add: sectionRow_fields scenario_toeL scenario_toeR scenario_areas scenario_edge
        scenario_fill_sides scenarioRow_def classify_def camberDrop_def fglL_edge_def fglR_edge_def
        round3_numeral round3_zero)

lemma scenario_result: "computeEarthwork scenarioCsv 20 4 0 1 2 None = Inr scenarioResult"
  by (simp add: scenario_run scenario_row scenarioResult_def summarise_def Let_def spacingL_def
        apportion_def scenarioRow_def round3_numeral round3_neg_numeral round3_zero)


lemma level_lines:
  "nonEmptyLines levelCsv = [''Chainage,FRL,EGL'', ''0+000,100,100'', ''0+020,100,95'']"
  by (simp add: nonEmptyLines_def levelCsv_def str_defs)

lemma level_line1:
  "lineRow B mw camber cs fs [''ch'' \<mapsto> 0, ''fgl'' \<mapsto> Suc 0, ''egl_generic'' \<mapsto> 2] 0 (Suc 0)
     ''0+000,100,100''
   = Inr (Some (sectionRow B mw camber cs fs ''0+000'' 0 100 100 100 100 100))"
  by (simp add: lineRow_def str_defs num_defs field_def eglRaw_def orElse_def Let_def)

lemma level_run:
  "computeEarthwork levelCsv B mw camber cs fs fx =
     Inr (summarise (volumePass fx
            [sectionRow B mw camber cs fs ''0+000'' 0 100 100 100 100 100,
             sectionRow B mw camber cs fs ''0+020'' 20 100 95 95 95 95] (0, 0)))"
  by (simp add: computeEarthwork_def level_lines scenario_headers scenario_columns
        level_line1 scenario_line2 Let_def del: volumePass.simps)

lemma level_toeL: "toeL 20 0 1 2 100 (groundPts 4 100 100 100 100) = Point (- 10) 100"
  by code_simp

lemma level_toeR: "toeR 20 0 1 2 100 (groundPts 4 100 100 100 100) = Point 10 100"
  by code_simp

lemma cutting_areas: "areas 20 0 1 2 100 (groundPts 4 105 105 105 105) = (125, 0)"
  by code_simp

lemma level_areas: "areas 20 0 1 2 100 (groundPts 4 100 100 100 100) = (0, 0)"
  by code_simp

lemma level_edge:
  "gL_at_edge 20 (groundPts 4 100 100 100 100) = 100 \<and>
   gR_at_edge 20 (groundPts 4 100 100 100 100) = 100"
  by code_simp

lemma level_sides:
  "\<not> isCutL 20 0 100 (groundPts 4 100 100 100 100) \<and>
   \<not> isCutR 20 0 100 (groundPts 4 100 100 100 100)"
  by code_simp

lemma level_row: "sectionRow 20 4 0 1 2 ''0+000'' 0 100 100 100 100 100 = levelRow"
  by (simp add: sectionRow_fields level_toeL level_toeR level_areas level_edge
        level_sides levelRow_def classify_def camberDrop_def fglL_edge_def fglR_edge_def
        round3_numeral round3_zero)

lemma level_result: "computeEarthwork levelCsv 20 4 0 1 2 None = Inr levelResult"
  by (simp add: level_run level_row scenario_row levelResult_def summarise_def Let_def spacingL_def
        apportion_def orOne_def scenarioRow_def levelRow_def round3_numeral round3_zero)


lemma shallow_lines: "nonEmptyLines shallowCsv = [''Chainage,FRL,EGL'', ''0+000,100,99.99'']"
  by (simp add: nonEmptyLines_def shallowCsv_def str_defs)

lemma shallow_line:
  "lineRow B mw camber cs fs [''ch'' \<mapsto> 0, ''fgl'' \<mapsto> Suc 0, ''egl_generic'' \<mapsto> 2] 0 (Suc 0)
     ''0+000,100,99.99''
   = Inr (Some (sectionRow B mw camber cs fs ''0+000'' 0 100
                  (9999 / 100) (9999 / 100) (9999 / 100) (9999 / 100)))"
  by (simp add: lineRow_def str_defs num_defs field_def eglRaw_def orElse_def Let_def)

lemma shallow_run:
  "computeEarthwork shallowCsv B mw camber cs fs fx =
     Inr (summarise (volumePass fx
            [sectionRow B mw camber cs fs ''0+000'' 0 100
               (9999 / 100) (9999 / 100) (9999 / 100) (9999 / 100)] (0, 0)))"
  by (simp add: computeEarthwork_def shallow_lines scenario_headers scenario_columns
        shallow_line Let_def del: volumePass.simps)

lemma shallow_toeL:
  "toeL 1 0 1 2 100 (groundPts 4 (9999 / 100) (9999 / 100) (9999 / 100) (9999 / 100))
     = Point (- 13 / 25) (9999 / 100)"
  by code_simp

lemma shallow_toeR:
  "toeR 1 0 1 2 100 (groundPts 4 (9999 / 100) (9999 / 100) (9999 / 100) (9999 / 100))
     = Point (13 / 25) (9999 / 100)"
  by code_simp

lemma shallow_areas:
  "areas 1 0 1 2 100 (groundPts 4 (9999 / 100) (9999 / 100) (9999 / 100) (9999 / 100))
     = (0, 51 / 5000)"
  by code_simp

lemma shallow_edge:
  "gL_at_edge 1 (groundPts 4 (9999 / 100) (9999 / 100) (9999 / 100) (9999 / 100)) = 9999 / 100 \<and>
   gR_at_edge 1 (groundPts 4 (9999 / 100) (9999 / 100) (9999 / 100) (9999 / 100)) = 9999 / 100"
  by code_simp

lemma shallow_sides:
  "\<not> isCutL 1 0 100 (groundPts 4 (9999 / 100) (9999 / 100) (9999 / 100) (9999 / 100)) \<and>
   \<not> isCutR 1 0 100 (groundPts 4 (9999 / 100) (9999 / 100) (9999 / 100) (9999 / 100))"
  by code_simp

lemma round3_milli: "round3 (numeral n / 1000) = numeral n / 1000"
  using round3_of_int_div[of "numeral n"] by simp

lemma shallow_row:
  "sectionRow 1 4 0 1 2 ''0+000'' 0 100 (9999 / 100) (9999 / 100) (9999 / 100) (9999 / 100)
     = shallowRow"
proof -
  have r: "round3 (9999 / 100) = 9999 / 100" "round3 (1 / 100) = 1 / 100"
          "round3 (1 / 50) = 1 / 50" "round3 (26 / 25) = 26 / 25" "round3 (51 / 5000) = 1 / 100"
          "round3 1 = 1"
    by code_simp+
  show ?thesis
    by (simp add: sectionRow_fields shallow_toeL shallow_toeR shallow_areas shallow_edge
        shallow_sides shallowRow_def classify_def camberDrop_def fglL_edge_def fglR_edge_def
        round3_numeral round3_zero r)
qed

lemma shallow_result: "computeEarthwork shallowCsv 1 4 0 1 2 None = Inr shallowResult"
  by (simp add: shallow_run shallow_row shallowResult_def summarise_def round3_zero)

section \<open>Headers and lines\<close>

lemma mapHeader_ch:
  "mapHeader m (h, i) ''ch'' = (if str_includes h ''chain'' then Some i else m ''ch'')"
  by (simp add: mapHeader_def)

lemma mapHeader_fgl:
  "mapHeader m (h, i) ''fgl'' =
     (if str_includes h ''chain'' then m ''fgl''
      else if str_includes h ''prop'' \<or> str_includes h ''frl'' \<or> str_includes h ''fgl''
      then Some i else m ''fgl'')"
  by (simp add: mapHeader_def)

lemma foldl_mapHeader_ch:
  "length ks = length hs \<Longrightarrow>
   foldl mapHeader m (zip hs ks) ''ch'' = None \<longleftrightarrow>
     m ''ch'' = None \<and> (\<forall>h \<in> set hs. \<not> str_includes h ''chain'')"
proof (induction hs ks arbitrary: m rule: list_induct2')
  case (4 h hs k ks)
  then have "length ks = length hs" by simp
  from "4.IH"[OF this, of "mapHeader m (h, k)"]
  show ?case by (auto simp: mapHeader_ch)
qed simp_all

lemma foldl_mapHeader_fgl:
  "length ks = length hs \<Longrightarrow>
   foldl mapHeader m (zip hs ks) ''fgl'' = None \<longleftrightarrow>
     m ''fgl'' = None \<and>
     (\<forall>h \<in> set hs. str_includes h ''chain'' \<or>
        \<not> (str_includes h ''prop'' \<or> str_includes h ''frl'' \<or> str_includes h ''fgl''))"
proof (induction hs ks arbitrary: m rule: list_induct2')
  case (4 h hs k ks)
  then have "length ks = length hs" by simp
  from "4.IH"[OF this, of "mapHeader m (h, k)"]
  show ?case by (auto simp: mapHeader_fgl)
qed simp_all

lemma columnMap_ch:
  "columnMap hs ''ch'' = None \<longleftrightarrow> (\<forall>h \<in> set hs. \<not> str_includes h ''chain'')"
  unfolding columnMap_def using foldl_mapHeader_ch[of "[0..<length hs]" hs Map.empty] by simp

lemma columnMap_fgl:
  "columnMap hs ''fgl'' = None \<longleftrightarrow>
     (\<forall>h \<in> set hs. str_includes h ''chain'' \<or>
        \<not> (str_includes h ''prop'' \<or> str_includes h ''frl'' \<or> str_includes h ''fgl''))"
  unfolding columnMap_def using foldl_mapHeader_fgl[of "[0..<length hs]" hs Map.empty] by simp

lemma splitLines_no_feed:
  "CHR 0x0A \<notin> set s \<Longrightarrow> splitLines cur s = [cur @ s]"
  by (induction cur s rule: splitLines.induct) auto

lemma set_trim: "set (trim s) \<subseteq> set s"
proof -
  have "set (dropWhile isWhite (rev (dropWhile isWhite s))) \<subseteq> set (rev (dropWhile isWhite s))"
    by (rule set_dropWhileD[THEN subsetI])
  also have "\<dots> \<subseteq> set s" using set_dropWhileD by fastforce
  finally show ?thesis by (simp add: trim_def)
qed

lemma one_line_without_feed:
  assumes "CHR 0x0A \<notin> set csvData"
  shows "length (nonEmptyLines csvData) < 2"
proof -
  have "CHR 0x0A \<notin> set (trim csvData)" using assms set_trim by blast
  then have "splitLines [] (trim csvData) = [trim csvData]"
    using splitLines_no_feed[of "trim csvData" "[]"] by simp
  then show ?thesis by (simp add: nonEmptyLines_def)
qed

lemma noChainage_lines: "nonEmptyLines noChainageCsv = [''Station,FRL,EGL'', ''0+000,100,95'']"
  by (simp add: nonEmptyLines_def noChainageCsv_def str_defs)

lemma noChainage_headers: "headersOf ''Station,FRL,EGL'' = [''station'', ''frl'', ''egl'']"
  by (simp add: headersOf_def str_defs)

lemma noLevel_lines: "nonEmptyLines noLevelCsv = [''Chainage,Level,EGL'', ''0+000,100,95'']"
  by (simp add: nonEmptyLines_def noLevelCsv_def str_defs)

lemma noLevel_headers: "headersOf ''Chainage,Level,EGL'' = [''chainage'', ''level'', ''egl'']"
  by (simp add: headersOf_def str_defs)

section \<open>Chainage tokens\<close>

lemma chainage_examples:
  "chainageToMeters ''0+020'' = Some 20 \<and>
   chainageToMeters ''1+005'' = Some 1005 \<and>
   chainageToMeters ''250'' = Some 250 \<and>
   chainageToMeters ''12,500m'' = Some 12500 \<and>
   chainageToMeters ''1+5'' = Some 1005 \<and>
   chainageToMeters ''12.5'' = Some 13 \<and>
   chainageToMeters ''abc'' = None"
proof -
  have "round (25 / 2 :: number) = 13" by code_simp
  moreover have "replicate 2 c = [c, c]" for c :: char by (simp add: numeral_2_eq_2)
  ultimately show ?thesis by (simp add: num_defs str_defs Let_def)
qed

lemma digit_not_white: "isDigit c \<Longrightarrow> \<not> isWhite c"
  by (auto simp: isDigit_def isWhite_def)

lemma trim_station:
  assumes "list_all isDigit a" "a \<noteq> []" "list_all isDigit b" "b \<noteq> []"
  shows "trim (a @ CHR ''+'' # b) = a @ CHR ''+'' # b"
proof -
  obtain a0 as where a: "a = a0 # as" using assms(2) by (cases a) auto
  obtain bs bl where b: "b = bs @ [bl]" using assms(4) by (metis rev_exhaust)
  have "\<not> isWhite a0" using assms(1) a digit_not_white by simp
  moreover have "\<not> isWhite bl" using assms(3) b digit_not_white by simp
  ultimately show ?thesis unfolding a b by (simp add: trim_def)
qed

lemma digitsToNat_zeros: "digitsToNat (replicate k (CHR ''0'') @ b) = digitsToNat b"
proof -
  have "foldl (\<lambda>n c. n * 10 + (of_char c - 48)) 0 (replicate k (CHR ''0'')) = (0 :: nat)"
    by (induction k) simp_all
  then show ?thesis by (simp add: digitsToNat_def)
qed

lemma chainage_station_form:
  assumes "list_all isDigit a" "a \<noteq> []" "list_all isDigit b" "1 \<le> length b" "length b \<le> 3"
  shows "chainageToMeters (a @ CHR ''+'' # b) = Some (int (digitsToNat a) * 1000 + int (digitsToNat b))"
proof -
  have bne: "b \<noteq> []" using assms(4) by auto
  have np: "\<not> isDigit (CHR ''+'')" by (simp add: isDigit_def)
  have tw: "takeWhile isDigit (a @ CHR ''+'' # b) = a"
    using assms(1) np by (simp add: takeWhile_append2 list_all_iff)
  have dw: "dropWhile isDigit (a @ CHR ''+'' # b) = CHR ''+'' # b"
    using assms(1) np by (simp add: dropWhile_append2 list_all_iff)
  have "matchStation (a @ CHR ''+'' # b) = Some (a, b)"
    using assms by (simp add: matchStation_def tw dw)
  then show ?thesis
    by (simp add: chainageToMeters_def trim_station[OF assms(1,2,3) bne] padStart3_def
          digitsToNat_zeros)
qed

section \<open>Properties of the calculator\<close>

text \<open>
  C5. For every row of a result, the stored cut area and fill area are not negative, and
  their sum is the stored total area up to the rounding of storage: the three fields are
  rounded separately to three decimals, so the sum is within 0.001 of the total.
\<close>

theorem area_decomposition:
  assumes "cutSlope \<noteq> 0" and "fillSlope \<noteq> 0"
    and "computeEarthwork csvData B medianWidth camber cutSlope fillSlope fixedSpacing = Inr res"
    and "r \<in> set (c_rows res)"
  shows "0 \<le> r_areaCut r \<and> 0 \<le> r_areaFill r \<and>
         \<bar>r_areaCut r + r_areaFill r - r_area r\<bar> \<le> 1 / 1000"
proof -
  obtain chStr chM fglC e1 e2 e3 e4 sp v where
    r: "r = (sectionRow B medianWidth camber cutSlope fillSlope chStr chM fglC e1 e2 e3 e4)
              \<lparr>r_spacing := sp, r_segVolume := v\<rparr>"
    using computeEarthwork_rows[OF assms(3,4)] by blast
  define a where "a = areas B camber cutSlope fillSlope fglC (groundPts medianWidth e1 e2 e3 e4)"
  have f: "r_areaCut r = round3 (fst a)" "r_areaFill r = round3 (snd a)"
          "r_area r = round3 (fst a + snd a)"
    unfolding r a_def by (simp_all add: sectionRow_fields)
  have nn: "0 \<le> fst a" "0 \<le> snd a"
    unfolding a_def using areas_nonneg by blast+
  show ?thesis unfolding f using nn round3_nonneg round3_split by blast
qed

theorem area_decomposition_witness:
  "(1 :: number) \<noteq> 0 \<and> (2 :: number) \<noteq> 0 \<and>
   computeEarthwork scenarioCsv 20 4 0 1 2 None = Inr scenarioResult \<and>
   scenarioRow ''0+020'' 20 \<in> set (c_rows scenarioResult) \<and>
   0 \<le> r_areaCut (scenarioRow ''0+020'' 20) \<and> 0 \<le> r_areaFill (scenarioRow ''0+020'' 20) \<and>
   \<bar>r_areaCut (scenarioRow ''0+020'' 20) + r_areaFill (scenarioRow ''0+020'' 20)
      - r_area (scenarioRow ''0+020'' 20)\<bar> \<le> 1 / 1000"
proof -
  have m: "scenarioRow ''0+020'' 20 \<in> set (c_rows scenarioResult)"
    by (simp add: scenarioResult_def)
  have s: "(1 :: number) \<noteq> 0" "(2 :: number) \<noteq> 0" by simp_all
  show ?thesis
    using area_decomposition[OF s scenario_result m] scenario_result m by simp
qed

text \<open>
  C9. On each side the toe lies at or beyond the formation edge: the left toe's offset is at
  most \<open>- B / 2\<close>, the right toe's at least \<open>B / 2\<close>. When the scan of a side accepts no
  intersection, the toe is the formation edge itself, at the ground level there.
\<close>

theorem toe_outside_formation:
  assumes "cutSlope \<noteq> 0" and "fillSlope \<noteq> 0"
  shows "px (toeL B camber cutSlope fillSlope fglC gp) \<le> - B / 2 \<and>
         B / 2 \<le> px (toeR B camber cutSlope fillSlope fglC gp) \<and>
         (scanToeL B (pRoadL B camber fglC) (rayEndL B camber cutSlope fillSlope fglC gp)
            (extendedGround gp) = None \<longrightarrow>
          toeL B camber cutSlope fillSlope fglC gp = Point (- B / 2) (gL_at_edge B gp)) \<and>
         (scanToeR B (pRoadR B camber fglC) (rayEndR B camber cutSlope fillSlope fglC gp)
            (extendedGround gp) = None \<longrightarrow>
          toeR B camber cutSlope fillSlope fglC gp = Point (B / 2) (gR_at_edge B gp))"
  using toeL_le[of B camber cutSlope fillSlope fglC gp] toeR_ge[of B camber cutSlope fillSlope fglC gp]
  by (simp add: toeL_def toeR_def)

lemma deep_scanL:
  "scanToeL 20 (pRoadL 20 0 1000) (rayEndL 20 0 1 2 1000 (groundPts 4 0 0 0 0))
     (extendedGround (groundPts 4 0 0 0 0)) = None"
  by code_simp

lemma deep_scanR:
  "scanToeR 20 (pRoadR 20 0 1000) (rayEndR 20 0 1 2 1000 (groundPts 4 0 0 0 0))
     (extendedGround (groundPts 4 0 0 0 0)) = None"
  by code_simp

lemma deep_edge:
  "gL_at_edge 20 (groundPts 4 0 0 0 0) = 0 \<and> gR_at_edge 20 (groundPts 4 0 0 0 0) = 0"
  by code_simp

theorem toe_outside_formation_witness:
  "(1 :: number) \<noteq> 0 \<and> (2 :: number) \<noteq> 0 \<and>
   scanToeL 20 (pRoadL 20 0 1000) (rayEndL 20 0 1 2 1000 (groundPts 4 0 0 0 0))
     (extendedGround (groundPts 4 0 0 0 0)) = None \<and>
   scanToeR 20 (pRoadR 20 0 1000) (rayEndR 20 0 1 2 1000 (groundPts 4 0 0 0 0))
     (extendedGround (groundPts 4 0 0 0 0)) = None \<and>
   toeL 20 0 1 2 1000 (groundPts 4 0 0 0 0) = Point (- 10) 0 \<and>
   toeR 20 0 1 2 1000 (groundPts 4 0 0 0 0) = Point 10 0 \<and>
   px (toeL 20 0 1 2 1000 (groundPts 4 0 0 0 0)) \<le> - 20 / 2 \<and>
   20 / 2 \<le> px (toeR 20 0 1 2 1000 (groundPts 4 0 0 0 0))"
proof -
  have s: "(1 :: number) \<noteq> 0" "(2 :: number) \<noteq> 0" by simp_all
  show ?thesis
    using toe_outside_formation[OF s, of 20 0 1000 "groundPts 4 0 0 0 0"]
      deep_scanL deep_scanR deep_edge
    by simp
qed

text \<open>
  C1. Scenario A: formation width 20, camber 0, formation level 100, the four ground levels
  95, cut slope 1, fill slope 2 (and the default median width 4). Both sides are fill, the
  toes are at offsets -20 and 20 on the ground, so the bottom width is 40 and each toe is
  10 from its edge; the fill area is 150, the cut area 0 and the type \<open>Fill\<close>. The
  calculator returns these rows for the two-station text of the scenario.
\<close>

theorem scenario_A_pure_fill:
  "\<not> isCutL 20 0 100 (groundPts 4 95 95 95 95) \<and>
   \<not> isCutR 20 0 100 (groundPts 4 95 95 95 95) \<and>
   toeL 20 0 1 2 100 (groundPts 4 95 95 95 95) = Point (- 20) 95 \<and>
   toeR 20 0 1 2 100 (groundPts 4 95 95 95 95) = Point 20 95 \<and>
   r_bottomWidth (sectionRow 20 4 0 1 2 chStr chM 100 95 95 95 95) = 40 \<and>
   r_distL (sectionRow 20 4 0 1 2 chStr chM 100 95 95 95 95) = 10 \<and>
   r_distR (sectionRow 20 4 0 1 2 chStr chM 100 95 95 95 95) = 10 \<and>
   r_areaFill (sectionRow 20 4 0 1 2 chStr chM 100 95 95 95 95) = 150 \<and>
   r_areaCut (sectionRow 20 4 0 1 2 chStr chM 100 95 95 95 95) = 0 \<and>
   r_type (sectionRow 20 4 0 1 2 chStr chM 100 95 95 95 95) = Fill \<and>
   computeEarthwork scenarioCsv 20 4 0 1 2 None = Inr scenarioResult"
  by (simp add: scenario_fill_sides scenario_toeL scenario_toeR scenario_row scenarioRow_def
        scenario_result)

text \<open>
  C2. In a result, for every adjacent pair of rows \<open>i\<close>, \<open>i + 1\<close>, row \<open>i\<close> stores as segment
  volume the three-decimal rounding of \<open>(area i + area (i + 1)) / 2 * L\<close> and as spacing the
  rounding of \<open>L\<close>, where \<open>L\<close> is the fixed spacing when one is given and positive, and the
  absolute difference of the two chainages in metres otherwise. The last row keeps volume 0 and
  no spacing.
\<close>

theorem segment_volume:
  assumes "computeEarthwork csvData B medianWidth camber cutSlope fillSlope fixedSpacing = Inr res"
  shows "(\<forall>i. Suc i < length (c_rows res) \<longrightarrow>
            r_segVolume (c_rows res ! i) =
              round3 ((r_area (c_rows res ! i) + r_area (c_rows res ! Suc i)) / 2 *
                (if fixedSpacing \<noteq> None \<and> the fixedSpacing > 0 then the fixedSpacing
                 else \<bar>of_int (r_chainage_m (c_rows res ! Suc i))
                        - of_int (r_chainage_m (c_rows res ! i))\<bar>)) \<and>
            r_spacing (c_rows res ! i) =
              Some (round3
                (if fixedSpacing \<noteq> None \<and> the fixedSpacing > 0 then the fixedSpacing
                 else \<bar>of_int (r_chainage_m (c_rows res ! Suc i))
                        - of_int (r_chainage_m (c_rows res ! i))\<bar>))) \<and>
         (c_rows res \<noteq> [] \<longrightarrow>
            r_segVolume (last (c_rows res)) = 0 \<and> r_spacing (last (c_rows res)) = None)"
proof -
  obtain colMap ch fgl rows where
    fp: "firstPass (lineRow B medianWidth camber cutSlope fillSlope colMap ch fgl)
           (tl (nonEmptyLines csvData)) = Inr rows"
    and res: "res = summarise (volumePass fixedSpacing rows (0, 0))"
    using computeEarthwork_InrD[OF assms] by blast
  have rows': "c_rows res = fst (volumePass fixedSpacing rows (0, 0))"
    unfolding res summarise_def by (simp split: prod.splits)
  have len: "length (c_rows res) = length rows"
    unfolding rows' by (rule volumePass_length)
  have L: "spacingL fixedSpacing r1 r2 =
             (if fixedSpacing \<noteq> None \<and> the fixedSpacing > 0 then the fixedSpacing
              else \<bar>of_int (r_chainage_m r2) - of_int (r_chainage_m r1)\<bar>)" for r1 r2
    by (cases fixedSpacing) (simp_all add: spacingL_def)
  have pairs: "r_segVolume (c_rows res ! i) =
              round3 ((r_area (c_rows res ! i) + r_area (c_rows res ! Suc i)) / 2 *
                (if fixedSpacing \<noteq> None \<and> the fixedSpacing > 0 then the fixedSpacing
                 else \<bar>of_int (r_chainage_m (c_rows res ! Suc i))
                        - of_int (r_chainage_m (c_rows res ! i))\<bar>)) \<and>
            r_spacing (c_rows res ! i) =
              Some (round3
                (if fixedSpacing \<noteq> None \<and> the fixedSpacing > 0 then the fixedSpacing
                 else \<bar>of_int (r_chainage_m (c_rows res ! Suc i))
                        - of_int (r_chainage_m (c_rows res ! i))\<bar>))"
    if i: "Suc i < length (c_rows res)" for i
  proof -
    have i1: "Suc i < length rows" and i0: "i < length rows" using i len by simp_all
    have seg: "c_rows res ! i = segRow fixedSpacing (rows ! i) (rows ! Suc i)"
      unfolding rows' by (rule volumePass_seg[OF i1])
    have k0: "r_area (c_rows res ! i) = r_area (rows ! i)"
             "r_chainage_m (c_rows res ! i) = r_chainage_m (rows ! i)"
      unfolding rows' using volumePass_keeps[OF i0] by simp_all
    have k1: "r_area (c_rows res ! Suc i) = r_area (rows ! Suc i)"
             "r_chainage_m (c_rows res ! Suc i) = r_chainage_m (rows ! Suc i)"
      unfolding rows' using volumePass_keeps[OF i1] by simp_all
    show ?thesis
      unfolding k0 k1 L[symmetric] unfolding seg by (simp add: segRow_def)
  qed
  have lastrow: "r_segVolume (last (c_rows res)) = 0 \<and> r_spacing (last (c_rows res)) = None"
    if ne: "c_rows res \<noteq> []"
  proof -
    have rne: "rows \<noteq> []" using ne len by auto
    have "last (c_rows res) = last rows"
      unfolding rows' by (rule volumePass_last[OF rne])
    moreover have "last rows \<in> set rows" using rne by simp
    ultimately show ?thesis using firstPass_fresh[OF fp] by simp
  qed
  show ?thesis using pairs lastrow by blast
qed

theorem segment_volume_witness:
  "computeEarthwork scenarioCsv 20 4 0 1 2 None = Inr scenarioResult \<and>
   Suc 0 < length (c_rows scenarioResult) \<and>
   c_rows scenarioResult \<noteq> [] \<and>
   r_segVolume (c_rows scenarioResult ! 0) = 3000 \<and>
   r_segVolume (c_rows scenarioResult ! 0) =
     round3 ((r_area (c_rows scenarioResult ! 0) + r_area (c_rows scenarioResult ! Suc 0)) / 2 *
             \<bar>of_int (r_chainage_m (c_rows scenarioResult ! Suc 0))
                - of_int (r_chainage_m (c_rows scenarioResult ! 0))\<bar>) \<and>
   r_spacing (c_rows scenarioResult ! 0) = Some 20 \<and>
   r_segVolume (last (c_rows scenarioResult)) = 0 \<and>
   r_spacing (last (c_rows scenarioResult)) = None"
proof -
  have a: "Suc 0 < length (c_rows scenarioResult)" "c_rows scenarioResult \<noteq> []"
    by (simp_all add: scenarioResult_def)
  have v: "r_segVolume (c_rows scenarioResult ! 0) = 3000"
          "r_spacing (c_rows scenarioResult ! 0) = Some 20"
    by (simp_all add: scenarioResult_def)
  from segment_volume[OF scenario_result]
  have "r_segVolume (c_rows scenarioResult ! 0) =
     round3 ((r_area (c_rows scenarioResult ! 0) + r_area (c_rows scenarioResult ! Suc 0)) / 2 *
             \<bar>of_int (r_chainage_m (c_rows scenarioResult ! Suc 0))
                - of_int (r_chainage_m (c_rows scenarioResult ! 0))\<bar>)"
    and "r_segVolume (last (c_rows scenarioResult)) = 0"
    and "r_spacing (last (c_rows scenarioResult)) = None"
    using a by simp_all
  then show ?thesis using scenario_result a v by simp
qed

text \<open>
  C3. The totals of a result are the rounded sums, over the adjacent pairs, of each row's
  share of its segment volume \<open>V\<close>: a \<open>Cut\<close> row gives all of \<open>V\<close> to the cut total, a \<open>Fill\<close> row
  all of it to the fill total, any other row \<open>V * areaCut / area\<close> and \<open>V * areaFill / area\<close>,
  with a zero area read as denominator 1. A row of the result whose area is zero contributes
  nothing. One step of the loop, on any row: a \<open>Cut\<close> row adds \<open>V\<close> to the cut total only, a
  \<open>Fill\<close> row adds \<open>V\<close> to the fill total only; any other row adds \<open>V * areaCut / area\<close> and
  \<open>V * areaFill / area\<close> when its area is not zero, and \<open>V * areaCut\<close> and \<open>V * areaFill\<close>
  (denominator 1) when its area is zero. With area 100, cut area 30, fill area 70 and
  \<open>V = 50\<close> the step adds 15 and 35.
\<close>

theorem apportionment:
  assumes "computeEarthwork csvData B medianWidth camber cutSlope fillSlope fixedSpacing = Inr res"
  shows "s_totalCut (c_summary res) =
           round3 (\<Sum>i<length (c_rows res) - 1. specCutShare (c_rows res ! i)) \<and>
         s_totalFill (c_summary res) =
           round3 (\<Sum>i<length (c_rows res) - 1. specFillShare (c_rows res ! i)) \<and>
         (\<forall>r \<in> set (c_rows res). r_area r = 0 \<longrightarrow> specCutShare r = 0 \<and> specFillShare r = 0) \<and>
         (\<forall>r totalCut totalFill.
            r_type r \<noteq> Cut \<and> r_type r \<noteq> Fill \<and>
            r_area r = 100 \<and> r_areaCut r = 30 \<and> r_areaFill r = 70 \<longrightarrow>
            apportion r 50 (totalCut, totalFill) = (totalCut + 15, totalFill + 35)) \<and>
         (\<forall>r V totalCut totalFill.
            r_type r = Cut \<longrightarrow>
            apportion r V (totalCut, totalFill) = (totalCut + V, totalFill)) \<and>
         (\<forall>r V totalCut totalFill.
            r_type r = Fill \<longrightarrow>
            apportion r V (totalCut, totalFill) = (totalCut, totalFill + V)) \<and>
         (\<forall>r V totalCut totalFill.
            r_type r \<noteq> Cut \<and> r_type r \<noteq> Fill \<and> r_area r \<noteq> 0 \<longrightarrow>
            apportion r V (totalCut, totalFill) =
              (totalCut + V * (r_areaCut r / r_area r), totalFill + V * (r_areaFill r / r_area r))) \<and>
         (\<forall>r V totalCut totalFill.
            r_type r \<noteq> Cut \<and> r_type r \<noteq> Fill \<and> r_area r = 0 \<longrightarrow>
            apportion r V (totalCut, totalFill) =
              (totalCut + V * r_areaCut r, totalFill + V * r_areaFill r))"
proof -
  obtain colMap ch fgl rows where
    fp: "firstPass (lineRow B medianWidth camber cutSlope fillSlope colMap ch fgl)
           (tl (nonEmptyLines csvData)) = Inr rows"
    and res: "res = summarise (volumePass fixedSpacing rows (0, 0))"
    using computeEarthwork_InrD[OF assms] by blast
  have rows': "c_rows res = fst (volumePass fixedSpacing rows (0, 0))"
    unfolding res summarise_def by (simp split: prod.splits)
  have len: "length (c_rows res) = length rows"
    unfolding rows' by (rule volumePass_length)
  have seg: "c_rows res ! i = segRow fixedSpacing (rows ! i) (rows ! Suc i)"
    if "i < length (c_rows res) - 1" for i
    unfolding rows' using that len by (intro volumePass_seg) simp
  have cutsum: "(\<Sum>i<length (c_rows res) - 1. specCutShare (c_rows res ! i)) =
        (\<Sum>i<length rows - 1. specCutShare (segRow fixedSpacing (rows ! i) (rows ! Suc i)))"
    using seg len by simp
  have fillsum: "(\<Sum>i<length (c_rows res) - 1. specFillShare (c_rows res ! i)) =
        (\<Sum>i<length rows - 1. specFillShare (segRow fixedSpacing (rows ! i) (rows ! Suc i)))"
    using seg len by simp
  have tot: "s_totalCut (c_summary res) = round3 (fst (snd (volumePass fixedSpacing rows (0, 0))))"
            "s_totalFill (c_summary res) = round3 (snd (snd (volumePass fixedSpacing rows (0, 0))))"
    unfolding res summarise_def by (simp_all split: prod.splits)
  have totals: "s_totalCut (c_summary res) =
           round3 (\<Sum>i<length (c_rows res) - 1. specCutShare (c_rows res ! i)) \<and>
         s_totalFill (c_summary res) =
           round3 (\<Sum>i<length (c_rows res) - 1. specFillShare (c_rows res ! i))"
    unfolding tot cutsum fillsum volumePass_totals by simp
  have zero: "specCutShare r = 0 \<and> specFillShare r = 0"
    if r: "r \<in> set (c_rows res)" and z: "r_area r = 0" for r
  proof -
    obtain chStr chM fglC e1 e2 e3 e4 sp v where
      rr: "r = (sectionRow B medianWidth camber cutSlope fillSlope chStr chM fglC e1 e2 e3 e4)
                \<lparr>r_spacing := sp, r_segVolume := v\<rparr>"
      using computeEarthwork_rows[OF assms r] by blast
    define a where "a = areas B camber cutSlope fillSlope fglC (groundPts medianWidth e1 e2 e3 e4)"
    have f: "r_areaCut r = round3 (fst a)" "r_areaFill r = round3 (snd a)"
            "r_area r = round3 (fst a + snd a)" "r_type r = classify (fst a) (snd a)"
      unfolding rr a_def by (simp_all add: sectionRow_fields)
    have nn: "0 \<le> fst a" "0 \<le> snd a"
      unfolding a_def using areas_nonneg by blast+
    have c0: "r_areaCut r = 0"
      using round3_mono[of "fst a" "fst a + snd a"] round3_nonneg[OF nn(1)] nn z f by simp
    have f0: "r_areaFill r = 0"
      using round3_mono[of "snd a" "fst a + snd a"] round3_nonneg[OF nn(2)] nn z f by simp
    have small: "fst a + snd a < 1 / 100"
    proof (rule ccontr)
      assume "\<not> fst a + snd a < 1 / 100"
      then have "round3 (1 / 100) \<le> round3 (fst a + snd a)" by (intro round3_mono) simp
      moreover have "round3 (1 / 100) = 1 / 100" by (simp add: round3_def)
      ultimately show False using z f by simp
    qed
    have "r_type r = Level"
      unfolding f classify_def using small nn by auto
    then show ?thesis by (simp add: specCutShare_def specFillShare_def c0 f0)
  qed
  have step: "apportion r 50 (totalCut, totalFill) = (totalCut + 15, totalFill + 35)"
    if "r_type r \<noteq> Cut \<and> r_type r \<noteq> Fill \<and>
        r_area r = 100 \<and> r_areaCut r = 30 \<and> r_areaFill r = 70" for r totalCut totalFill
    using that by (simp add: apportion_def orOne_def)
  have stepCut: "apportion r V (totalCut, totalFill) = (totalCut + V, totalFill)"
    if "r_type r = Cut" for r V totalCut totalFill
    using that by (simp add: apportion_def)
  have stepFill: "apportion r V (totalCut, totalFill) = (totalCut, totalFill + V)"
    if "r_type r = Fill" for r V totalCut totalFill
    using that by (simp add: apportion_def)
  have stepSplit: "apportion r V (totalCut, totalFill) =
              (totalCut + V * (r_areaCut r / r_area r), totalFill + V * (r_areaFill r / r_area r))"
    if "r_type r \<noteq> Cut \<and> r_type r \<noteq> Fill \<and> r_area r \<noteq> 0" for r V totalCut totalFill
    using that by (simp add: apportion_def orOne_def)
  have stepZero: "apportion r V (totalCut, totalFill) =
              (totalCut + V * r_areaCut r, totalFill + V * r_areaFill r)"
    if "r_type r \<noteq> Cut \<and> r_type r \<noteq> Fill \<and> r_area r = 0" for r V totalCut totalFill
    using that by (simp add: apportion_def orOne_def)
  show ?thesis
    apply (intro conjI)
           apply (rule totals[THEN conjunct1])
          apply (rule totals[THEN conjunct2])
    using zero apply blast
    using step apply blast
    using stepCut apply blast
    using stepFill apply blast
    using stepSplit apply blast
    using stepZero apply blast
    done
qed

theorem apportionment_witness:
  "computeEarthwork levelCsv 20 4 0 1 2 None = Inr levelResult \<and>
   c_rows levelResult ! 0 \<in> set (c_rows levelResult) \<and>
   r_area (c_rows levelResult ! 0) = 0 \<and>
   r_segVolume (c_rows levelResult ! 0) = 1500 \<and>
   specCutShare (c_rows levelResult ! 0) = 0 \<and>
   specFillShare (c_rows levelResult ! 0) = 0 \<and>
   s_totalCut (c_summary levelResult) = 0 \<and>
   s_totalFill (c_summary levelResult) = 0 \<and>
   s_totalCut (c_summary levelResult) =
     round3 (\<Sum>i<length (c_rows levelResult) - 1. specCutShare (c_rows levelResult ! i)) \<and>
   s_totalFill (c_summary levelResult) =
     round3 (\<Sum>i<length (c_rows levelResult) - 1. specFillShare (c_rows levelResult ! i)) \<and>
   computeEarthwork scenarioCsv 20 4 0 1 2 None = Inr scenarioResult \<and>
   s_totalFill (c_summary scenarioResult) = 3000 \<and>
   s_totalFill (c_summary scenarioResult) =
     round3 (\<Sum>i<length (c_rows scenarioResult) - 1. specFillShare (c_rows scenarioResult ! i)) \<and>
   r_type mixedRow \<noteq> Cut \<and> r_type mixedRow \<noteq> Fill \<and>
   r_area mixedRow = 100 \<and> r_areaCut mixedRow = 30 \<and> r_areaFill mixedRow = 70 \<and>
   apportion mixedRow 50 (0, 0) = (0 + 15, 0 + 35) \<and>
   r_area mixedRow \<noteq> 0 \<and>
   apportion mixedRow 200 (1, 2) = (1 + 200 * (30 / 100), 2 + 200 * (70 / 100)) \<and>
   r_type cutRow = Cut \<and>
   apportion cutRow 50 (1, 2) = (1 + 50, 2) \<and>
   r_type (scenarioRow [] 0) = Fill \<and>
   apportion (scenarioRow [] 0) 50 (1, 2) = (1, 2 + 50) \<and>
   r_type zeroAreaRow \<noteq> Cut \<and> r_type zeroAreaRow \<noteq> Fill \<and> r_area zeroAreaRow = 0 \<and>
   r_areaCut zeroAreaRow = 30 \<and> r_areaFill zeroAreaRow = 70 \<and>
   apportion zeroAreaRow 50 (0, 0) = (0 + 50 * 30, 0 + 50 * 70)"
proof -
  have m: "c_rows levelResult ! 0 \<in> set (c_rows levelResult)"
          "r_area (c_rows levelResult ! 0) = 0"
          "r_segVolume (c_rows levelResult ! 0) = 1500"
          "s_totalCut (c_summary levelResult) = 0"
          "s_totalFill (c_summary levelResult) = 0"
    by (simp_all add: levelResult_def levelRow_def)
  have x: "r_type mixedRow \<noteq> Cut \<and> r_type mixedRow \<noteq> Fill \<and>
           r_area mixedRow = 100 \<and> r_areaCut mixedRow = 30 \<and> r_areaFill mixedRow = 70"
    by (simp add: mixedRow_def)
  have x0: "r_type mixedRow \<noteq> Cut \<and> r_type mixedRow \<noteq> Fill \<and> r_area mixedRow \<noteq> 0"
    by (simp add: mixedRow_def)
  have y: "r_type cutRow = Cut" by (simp add: cutRow_def)
  have w: "r_type (scenarioRow [] 0) = Fill" by (simp add: scenarioRow_def)
  have z: "r_type zeroAreaRow \<noteq> Cut \<and> r_type zeroAreaRow \<noteq> Fill \<and> r_area zeroAreaRow = 0"
    by (simp add: zeroAreaRow_def mixedRow_def)
  have zv: "r_areaCut zeroAreaRow = 30" "r_areaFill zeroAreaRow = 70"
    by (simp_all add: zeroAreaRow_def mixedRow_def)
  have sv: "s_totalFill (c_summary scenarioResult) = 3000"
    by (simp add: scenarioResult_def)
  note t = apportionment[OF level_result]
  note u = apportionment[OF scenario_result]
  from t have t1: "s_totalCut (c_summary levelResult) =
     round3 (\<Sum>i<length (c_rows levelResult) - 1. specCutShare (c_rows levelResult ! i))"
    and t2: "s_totalFill (c_summary levelResult) =
     round3 (\<Sum>i<length (c_rows levelResult) - 1. specFillShare (c_rows levelResult ! i))"
    by blast+
  from u have u2: "s_totalFill (c_summary scenarioResult) =
     round3 (\<Sum>i<length (c_rows scenarioResult) - 1. specFillShare (c_rows scenarioResult ! i))"
    by blast
  from t m(1,2) have t3: "specCutShare (c_rows levelResult ! 0) = 0 \<and>
                         specFillShare (c_rows levelResult ! 0) = 0"
    by blast
  from t x have t4: "apportion mixedRow 50 (0, 0) = (0 + 15, 0 + 35)"
    by blast
  from t x0 have "apportion mixedRow 200 (1, 2) =
      (1 + 200 * (r_areaCut mixedRow / r_area mixedRow),
       2 + 200 * (r_areaFill mixedRow / r_area mixedRow))"
    by blast
  then have t5: "apportion mixedRow 200 (1, 2) = (1 + 200 * (30 / 100), 2 + 200 * (70 / 100))"
    using x by simp
  from t y have t6: "apportion cutRow 50 (1, 2) = (1 + 50, 2)"
    by blast
  from t w have t7: "apportion (scenarioRow [] 0) 50 (1, 2) = (1, 2 + 50)"
    by blast
  from t z have "apportion zeroAreaRow 50 (0, 0) =
      (0 + 50 * r_areaCut zeroAreaRow, 0 + 50 * r_areaFill zeroAreaRow)"
    by blast
  then have t8: "apportion zeroAreaRow 50 (0, 0) = (0 + 50 * 30, 0 + 50 * 70)"
    using zv by simp
  have x0': "r_area mixedRow \<noteq> 0" using x0 by simp
  show ?thesis
    using level_result m x t1 t2 t3 t4 scenario_result sv u2 x0' t5 y t6 w t7 z zv t8
    by blast
qed

text \<open>
  C4, as stated, fails: the single station \<open>0+000,100,99.99\<close> with formation width 1 gives a
  row of type \<open>Fill\<close> whose stored cut and fill areas are both at most 0.01 (the fill area
  0.0102 is classified, then stored as 0.01).
\<close>

theorem classification_counterexample:
  "computeEarthwork shallowCsv 1 4 0 1 2 None = Inr shallowResult \<and>
   c_rows shallowResult = [shallowRow] \<and>
   r_type shallowRow = Fill \<and>
   r_areaCut shallowRow \<le> 1 / 100 \<and>
   r_areaFill shallowRow \<le> 1 / 100 \<and>
   \<not> (r_type shallowRow = Level \<longleftrightarrow>
        r_areaCut shallowRow \<le> 1 / 100 \<and> r_areaFill shallowRow \<le> 1 / 100)"
  by (simp add: shallow_result shallowResult_def shallowRow_def)

text \<open>
  C4, amended. The type of a row is decided on the cut and fill areas before they are
  rounded for storage. It is \<open>Mixed\<close> if and only if both exceed 0.01. It is \<open>Level\<close> when both
  are at most 0.01, \<open>Cut\<close> when the cut area exceeds 0.01 and the fill area is below it, \<open>Fill\<close>
  when the fill area exceeds 0.01 and the cut area is below it. Conversely a \<open>Cut\<close> row has a
  cut area above 0.01 and a fill area of at most 0.01, a \<open>Fill\<close> row a fill area above 0.01 and
  a cut area of at most 0.01, and a \<open>Level\<close> row at least one area of at most 0.01. Nothing is
  said of the type when one area exceeds 0.01 and the other is exactly 0.01.
\<close>

theorem classification_before_rounding:
  assumes "cutSlope \<noteq> 0" and "fillSlope \<noteq> 0"
    and "r = sectionRow B medianWidth camber cutSlope fillSlope chStr chM fglC
               egl15L eglMedL eglMedR egl15R"
    and "a = areas B camber cutSlope fillSlope fglC
               (groundPts medianWidth egl15L eglMedL eglMedR egl15R)"
  shows "r_areaCut r = round3 (fst a) \<and> r_areaFill r = round3 (snd a) \<and>
         (r_type r = Mixed \<longleftrightarrow> fst a > 1 / 100 \<and> snd a > 1 / 100) \<and>
         (fst a \<le> 1 / 100 \<and> snd a \<le> 1 / 100 \<longrightarrow> r_type r = Level) \<and>
         (fst a > 1 / 100 \<and> snd a < 1 / 100 \<longrightarrow> r_type r = Cut) \<and>
         (snd a > 1 / 100 \<and> fst a < 1 / 100 \<longrightarrow> r_type r = Fill) \<and>
         (r_type r = Cut \<longrightarrow> fst a > 1 / 100 \<and> snd a \<le> 1 / 100) \<and>
         (r_type r = Fill \<longrightarrow> snd a > 1 / 100 \<and> fst a \<le> 1 / 100) \<and>
         (r_type r = Level \<longrightarrow> fst a \<le> 1 / 100 \<or> snd a \<le> 1 / 100)"
  unfolding assms(3,4) by (auto simp: sectionRow_fields classify_def split: if_splits)

theorem classification_before_rounding_witness:
  "(1 :: number) \<noteq> 0 \<and> (2 :: number) \<noteq> 0 \<and>
   fst (areas 20 0 1 2 100 (groundPts 4 100 100 100 100)) \<le> 1 / 100 \<and>
   snd (areas 20 0 1 2 100 (groundPts 4 100 100 100 100)) \<le> 1 / 100 \<and>
   r_type (sectionRow 20 4 0 1 2 ''0+000'' 0 100 100 100 100 100) = Level \<and>
   snd (areas 20 0 1 2 100 (groundPts 4 95 95 95 95)) > 1 / 100 \<and>
   fst (areas 20 0 1 2 100 (groundPts 4 95 95 95 95)) < 1 / 100 \<and>
   r_type (sectionRow 20 4 0 1 2 ''0+020'' 20 100 95 95 95 95) = Fill \<and>
   r_areaFill (sectionRow 20 4 0 1 2 ''0+020'' 20 100 95 95 95 95) = round3 150 \<and>
   fst (areas 20 0 1 2 100 (groundPts 4 105 105 105 105)) > 1 / 100 \<and>
   snd (areas 20 0 1 2 100 (groundPts 4 105 105 105 105)) < 1 / 100 \<and>
   r_type (sectionRow 20 4 0 1 2 ''0+040'' 40 100 105 105 105 105) = Cut \<and>
   r_areaCut (sectionRow 20 4 0 1 2 ''0+040'' 40 100 105 105 105 105) = round3 125"
proof -
  have s: "(1 :: number) \<noteq> 0" "(2 :: number) \<noteq> 0" by simp_all
  show ?thesis
    using classification_before_rounding[OF s refl refl, of 20 4 0 "''0+000''" 0 100 100 100 100 100]
      classification_before_rounding[OF s refl refl, of 20 4 0 "''0+020''" 20 100 95 95 95 95]
      classification_before_rounding[OF s refl refl, of 20 4 0 "''0+040''" 40 100 105 105 105 105]
    by (simp add: level_areas scenario_areas cutting_areas)
qed

text \<open>
  The other numeric fields of a row of a result are stored through \<open>round3\<close> (each is the
  rounding of the value computed for it, see \<open>sectionRow_fields\<close> and \<open>segRow\<close>), so rounding
  them again changes nothing; the chainage in metres is an integer; the three totals are
  rounded too. The slope ratio is the cut or the fill slope parameter.
\<close>

lemma stored_values_rounded:
  assumes "computeEarthwork csvData B medianWidth camber cutSlope fillSlope fixedSpacing = Inr res"
    and "r \<in> set (c_rows res)"
  shows "round3 (of_int (r_chainage_m r)) = of_int (r_chainage_m r) \<and>
         round3 (r_fglC r) = r_fglC r \<and>
         round3 (r_egl15L r) = r_egl15L r \<and>
         round3 (r_eglMedL r) = r_eglMedL r \<and>
         round3 (r_eglMedR r) = r_eglMedR r \<and>
         round3 (r_egl15R r) = r_egl15R r \<and>
         round3 (r_camberDrop r) = r_camberDrop r \<and>
         round3 (r_hL r) = r_hL r \<and>
         round3 (r_hR r) = r_hR r \<and>
         round3 (r_B r) = r_B r \<and>
         round3 (r_medianWidth r) = r_medianWidth r \<and>
         round3 (r_distL r) = r_distL r \<and>
         round3 (r_distR r) = r_distR r \<and>
         round3 (r_bottomWidth r) = r_bottomWidth r \<and>
         round3 (r_area r) = r_area r \<and>
         round3 (r_areaCut r) = r_areaCut r \<and>
         round3 (r_areaFill r) = r_areaFill r \<and>
         map_option round3 (r_spacing r) = r_spacing r \<and>
         round3 (r_segVolume r) = r_segVolume r \<and>
         (r_usedSlope r = cutSlope \<or> r_usedSlope r = fillSlope) \<and>
         round3 (s_totalCut (c_summary res)) = s_totalCut (c_summary res) \<and>
         round3 (s_totalFill (c_summary res)) = s_totalFill (c_summary res) \<and>
         round3 (s_net (c_summary res)) = s_net (c_summary res)"
proof -
  obtain colMap ch fgl rows where
    fp: "firstPass (lineRow B medianWidth camber cutSlope fillSlope colMap ch fgl)
           (tl (nonEmptyLines csvData)) = Inr rows"
    and res: "res = summarise (volumePass fixedSpacing rows (0, 0))"
    using computeEarthwork_InrD[OF assms(1)] by blast
  have rows': "c_rows res = fst (volumePass fixedSpacing rows (0, 0))"
    unfolding res summarise_def by (simp split: prod.splits)
  have len: "length (c_rows res) = length rows"
    unfolding rows' by (rule volumePass_length)
  obtain i where i: "i < length rows" and ri: "r = c_rows res ! i"
    using assms(2) len by (metis in_set_conv_nth)
  have second: "map_option round3 (r_spacing r) = r_spacing r \<and>
                round3 (r_segVolume r) = r_segVolume r"
  proof (cases "Suc i < length rows")
    case True
    have "r = segRow fixedSpacing (rows ! i) (rows ! Suc i)"
      unfolding ri rows' by (rule volumePass_seg[OF True])
    then show ?thesis by (simp add: segRow_def round3_idem)
  next
    case False
    then have "i = length rows - 1" using i by simp
    moreover have ne: "rows \<noteq> []" using i by auto
    ultimately have "r = last rows"
      unfolding ri using volumePass_last[OF ne, of fixedSpacing "(0, 0)"] rows' len
      by (metis last_conv_nth length_0_conv)
    moreover have "last rows \<in> set rows" using ne by simp
    ultimately show ?thesis using firstPass_fresh[OF fp] by (simp add: round3_zero)
  qed
  obtain chStr chM fglC e1 e2 e3 e4 sp v where
    r: "r = (sectionRow B medianWidth camber cutSlope fillSlope chStr chM fglC e1 e2 e3 e4)
              \<lparr>r_spacing := sp, r_segVolume := v\<rparr>"
    using computeEarthwork_rows[OF assms] by blast
  have first: "round3 (of_int (r_chainage_m r)) = of_int (r_chainage_m r) \<and>
         round3 (r_fglC r) = r_fglC r \<and>
         round3 (r_egl15L r) = r_egl15L r \<and>
         round3 (r_eglMedL r) = r_eglMedL r \<and>
         round3 (r_eglMedR r) = r_eglMedR r \<and>
         round3 (r_egl15R r) = r_egl15R r \<and>
         round3 (r_camberDrop r) = r_camberDrop r \<and>
         round3 (r_hL r) = r_hL r \<and>
         round3 (r_hR r) = r_hR r \<and>
         round3 (r_B r) = r_B r \<and>
         round3 (r_medianWidth r) = r_medianWidth r \<and>
         round3 (r_distL r) = r_distL r \<and>
         round3 (r_distR r) = r_distR r \<and>
         round3 (r_bottomWidth r) = r_bottomWidth r \<and>
         round3 (r_area r) = r_area r \<and>
         round3 (r_areaCut r) = r_areaCut r \<and>
         round3 (r_areaFill r) = r_areaFill r \<and>
         (r_usedSlope r = cutSlope \<or> r_usedSlope r = fillSlope)"
    unfolding r by (simp add: sectionRow_fields round3_idem round3_of_int)
  have third: "round3 (s_totalCut (c_summary res)) = s_totalCut (c_summary res) \<and>
         round3 (s_totalFill (c_summary res)) = s_totalFill (c_summary res) \<and>
         round3 (s_net (c_summary res)) = s_net (c_summary res)"
    unfolding res summarise_def by (simp add: round3_idem split: prod.splits)
  show ?thesis using first second third by blast
qed

text \<open>
  C8. Every numeric value of a row is to be stored rounded to three decimals. The slope
  ratio is not: the row stores the parameter as supplied, where the formation width and the
  median width, parameters too, are stored through \<open>round3\<close>. With fill slope 1.2346 both
  rows of the scenario store 1.2346, whose rounding is 1.235.
\<close>

theorem stored_slope_not_rounded:
  "map_sum id (map r_usedSlope \<circ> c_rows)
     (computeEarthwork scenarioCsv 20 4 0 1 (12346 / 10000) None)
     = Inr [12346 / 10000, 12346 / 10000] \<and>
   round3 (12346 / 10000) = 1235 / 1000 \<and>
   round3 (12346 / 10000) \<noteq> 12346 / 10000 \<and>
   r_B (sectionRow B medianWidth camber cutSlope fillSlope chStr chM fglC
          egl15L eglMedL eglMedR egl15R) = round3 B \<and>
   r_medianWidth (sectionRow B medianWidth camber cutSlope fillSlope chStr chM fglC
          egl15L eglMedL eglMedR egl15R) = round3 medianWidth"
proof -
  have "round3 (12346 / 10000) = 1235 / 1000" by code_simp
  then show ?thesis
    by (simp add: scenario_run summarise_def volumePass_step sectionRow_fields segRow_def
          scenario_fill_sides case_prod_beta del: volumePass.simps(1))
qed

text \<open>
  C6. The four examples decode as specified, and a token of the form \<open>D+DDD\<close> decodes to
  \<open>D * 1000\<close> plus the remainder (\<open>chainage_examples\<close>, \<open>chainage_station_form\<close>). The last
  part fails: a token that is empty, blank or a lone \<open>m\<close> is not a number, yet it decodes to
  0 and not to not-a-number, because \<^verbatim>\<open>Number('')\<close> is 0. A line whose chainage field is
  empty is therefore kept as a station at chainage 0, where a level field that is empty makes
  \<^verbatim>\<open>pNum\<close> return not-a-number and the line is dropped.
\<close>

theorem empty_chainage_decodes_to_zero:
  "chainageToMeters [] = Some 0 \<and>
   chainageToMeters ''m'' = Some 0 \<and>
   chainageToMeters '' '' = Some 0 \<and>
   pNum (Some []) = None \<and>
   map_sum id (map r_chainage_m \<circ> c_rows) (computeEarthwork blankChainageCsv 20 4 0 1 2 None)
     = Inr [0] \<and>
   map_sum id (map r_chainage \<circ> c_rows) (computeEarthwork blankChainageCsv 20 4 0 1 2 None)
     = Inr [[]]"
proof -
  have l: "nonEmptyLines blankChainageCsv = [''Chainage,FRL,EGL'', '',100,95'']"
    by (simp add: nonEmptyLines_def blankChainageCsv_def str_defs)
  have r: "lineRow 20 4 0 1 2 [''ch'' \<mapsto> 0, ''fgl'' \<mapsto> Suc 0, ''egl_generic'' \<mapsto> 2] 0 (Suc 0)
             '',100,95''
           = Inr (Some (sectionRow 20 4 0 1 2 [] 0 100 95 95 95 95))"
    by (simp add: lineRow_def str_defs num_defs field_def eglRaw_def orElse_def Let_def)
  have c: "computeEarthwork blankChainageCsv 20 4 0 1 2 None =
             Inr (summarise (volumePass None [sectionRow 20 4 0 1 2 [] 0 100 95 95 95 95] (0, 0)))"
    by (simp add: computeEarthwork_def l scenario_headers scenario_columns r Let_def
          del: volumePass.simps)
  have d: "chainageToMeters [] = Some 0 \<and> chainageToMeters ''m'' = Some 0 \<and>
           chainageToMeters '' '' = Some 0 \<and> pNum (Some []) = None"
    by (simp add: num_defs str_defs Let_def)
  show ?thesis
    using d by (simp add: c summarise_def sectionRow_fields)
qed

text \<open>
  C7. When the text has a header and a data line, and no header name contains \<open>chain\<close>, the
  computation fails with the missing-chainage error; when some name does, but no other name
  contains \<open>prop\<close>, \<open>frl\<close> or \<open>fgl\<close>, it fails with the missing-level error. Either way the
  result is an error, so no row is returned.
\<close>

theorem missing_column_fails:
  assumes "2 \<le> length (nonEmptyLines csvData)"
    and "hs = headersOf (nonEmptyLines csvData ! 0)"
  shows "((\<forall>h \<in> set hs. \<not> str_includes h ''chain'') \<longrightarrow>
            computeEarthwork csvData B medianWidth camber cutSlope fillSlope fixedSpacing
              = Inl MissingChainage) \<and>
         ((\<exists>h \<in> set hs. str_includes h ''chain'') \<and>
          (\<forall>h \<in> set hs. str_includes h ''chain'' \<or>
             \<not> (str_includes h ''prop'' \<or> str_includes h ''frl'' \<or> str_includes h ''fgl'')) \<longrightarrow>
            computeEarthwork csvData B medianWidth camber cutSlope fillSlope fixedSpacing
              = Inl MissingFRL) \<and>
         (columnMap hs ''ch'' = None \<or> columnMap hs ''fgl'' = None \<longrightarrow>
            isl (computeEarthwork csvData B medianWidth camber cutSlope fillSlope fixedSpacing))"
proof -
  have n: "\<not> length (nonEmptyLines csvData) < 2" using assms(1) by simp
  have a: "computeEarthwork csvData B medianWidth camber cutSlope fillSlope fixedSpacing
             = Inl MissingChainage" if "columnMap hs ''ch'' = None"
    using that n unfolding computeEarthwork_def Let_def assms(2) by simp
  have b: "computeEarthwork csvData B medianWidth camber cutSlope fillSlope fixedSpacing
             = Inl MissingFRL" if "columnMap hs ''ch'' \<noteq> None" "columnMap hs ''fgl'' = None"
    using that n unfolding computeEarthwork_def Let_def assms(2) by auto
  show ?thesis using a b columnMap_ch[of hs] columnMap_fgl[of hs] by (metis sum.disc(1))
qed

theorem missing_column_fails_witness:
  "2 \<le> length (nonEmptyLines noChainageCsv) \<and>
   headersOf (nonEmptyLines noChainageCsv ! 0) = [''station'', ''frl'', ''egl''] \<and>
   \<not> str_includes ''station'' ''chain'' \<and>
   \<not> str_includes ''frl'' ''chain'' \<and>
   \<not> str_includes ''egl'' ''chain'' \<and>
   computeEarthwork noChainageCsv 20 4 0 1 2 None = Inl MissingChainage \<and>
   2 \<le> length (nonEmptyLines noLevelCsv) \<and>
   headersOf (nonEmptyLines noLevelCsv ! 0) = [''chainage'', ''level'', ''egl''] \<and>
   str_includes ''chainage'' ''chain'' \<and>
   \<not> str_includes ''level'' ''prop'' \<and> \<not> str_includes ''level'' ''frl'' \<and>
   \<not> str_includes ''level'' ''fgl'' \<and>
   \<not> str_includes ''egl'' ''prop'' \<and> \<not> str_includes ''egl'' ''frl'' \<and>
   \<not> str_includes ''egl'' ''fgl'' \<and>
   computeEarthwork noLevelCsv 20 4 0 1 2 None = Inl MissingFRL"
proof -
  have l1: "2 \<le> length (nonEmptyLines noChainageCsv)"
    and h1: "headersOf (nonEmptyLines noChainageCsv ! 0) = [''station'', ''frl'', ''egl'']"
    by (simp_all add: noChainage_lines noChainage_headers)
  have p1: "\<not> str_includes ''station'' ''chain''" "\<not> str_includes ''frl'' ''chain''"
           "\<not> str_includes ''egl'' ''chain''"
    by simp_all
  have l2: "2 \<le> length (nonEmptyLines noLevelCsv)"
    and h2: "headersOf (nonEmptyLines noLevelCsv ! 0) = [''chainage'', ''level'', ''egl'']"
    by (simp_all add: noLevel_lines noLevel_headers)
  have p2: "str_includes ''chainage'' ''chain''"
    by simp
  have p3: "\<not> str_includes ''level'' ''prop''" "\<not> str_includes ''level'' ''frl''"
           "\<not> str_includes ''level'' ''fgl''"
           "\<not> str_includes ''egl'' ''prop''" "\<not> str_includes ''egl'' ''frl''"
           "\<not> str_includes ''egl'' ''fgl''"
    by simp_all
  have r1: "computeEarthwork noChainageCsv 20 4 0 1 2 None = Inl MissingChainage"
    using missing_column_fails[OF l1 h1[symmetric], of 20 4 0 1 2 None] p1 by simp
  have r2: "computeEarthwork noLevelCsv 20 4 0 1 2 None = Inl MissingFRL"
    using missing_column_fails[OF l2 h2[symmetric], of 20 4 0 1 2 None] p2 p3 by simp
  show ?thesis using l1 h1 p1 r1 l2 h2 p2 p3 r2 by blast
qed

text \<open>
  C10. A text with fewer than two lines that are not blank (an empty text, or a header with no
  data line; in particular any text without a line feed) makes the computation fail with the
  header error, whatever the header says.
\<close>

theorem too_few_lines_fails:
  "(length (nonEmptyLines csvData) < 2 \<longrightarrow>
      computeEarthwork csvData B medianWidth camber cutSlope fillSlope fixedSpacing
        = Inl NoHeaderRow) \<and>
   (CHR 0x0A \<notin> set csvData \<longrightarrow>
      computeEarthwork csvData B medianWidth camber cutSlope fillSlope fixedSpacing
        = Inl NoHeaderRow)"
  using one_line_without_feed[of csvData] by (simp add: computeEarthwork_def)

theorem too_few_lines_fails_witness:
  "length (nonEmptyLines ''Chainage,FRL,EGL'') < 2 \<and>
   CHR 0x0A \<notin> set ''Chainage,FRL,EGL'' \<and>
   computeEarthwork ''Chainage,FRL,EGL'' 20 4 0 1 2 None = Inl NoHeaderRow \<and>
   length (nonEmptyLines []) < 2 \<and>
   computeEarthwork [] 20 4 0 1 2 None = Inl NoHeaderRow"
proof -
  have a: "CHR 0x0A \<notin> set ''Chainage,FRL,EGL''" by simp
  have b: "length (nonEmptyLines ''Chainage,FRL,EGL'') < 2"
    by (simp add: nonEmptyLines_def str_defs)
  have c: "length (nonEmptyLines []) < 2"
    by (simp add: nonEmptyLines_def str_defs)
  show ?thesis
    using too_few_lines_fails[of "''Chainage,FRL,EGL''" 20 4 0 1 2 None]
      too_few_lines_fails[of "[]" 20 4 0 1 2 None] a b c
    by blast
qed
end
